(* ===== verification/Prelude.thy ===== *)
theory Prelude
  imports Complex_Main
begin

text \<open>
  Shared vocabulary of the development. JavaScript numbers are modelled as
  exact reals (\<open>js_number\<close>); the conversion of a number to its shortest
  decimal text (ECMAScript \<open>Number::toString\<close>) depends on the IEEE double
  that the real stands for, so it is not defined here but passed to every
  operation that prints a number as a parameter of type \<open>num_fmt\<close>. The
  theory also holds the generic list lemmas the components share: the
  \<open>Array.prototype.join\<close> of strings with a separator and the splitting
  that reads such a joined string back.
\<close>

type_synonym js_number = real

type_synonym num_fmt = "js_number \<Rightarrow> string"

named_theorems sek_defs "definitions of the widget's constants, unfolded by evaluation proofs"

subsection \<open>Joining and splitting strings\<close>

text \<open>\<open>xs.join(sep)\<close> of JavaScript, on lists of strings.\<close>

fun join :: "string \<Rightarrow> string list \<Rightarrow> string" where
  "join sep [] = []"
| "join sep [x] = x"
| "join sep (x # y # ys) = x @ sep @ join sep (y # ys)"

text \<open>\<open>s.split(c)\<close> for a one-character separator: the reader of a joined string.\<close>

fun split_on :: "char \<Rightarrow> string \<Rightarrow> string list" where
  "split_on c [] = [[]]"
| "split_on c (x # xs) =
     (if x = c then [] # split_on c xs
      else (case split_on c xs of [] \<Rightarrow> [[x]] | w # ws \<Rightarrow> (x # w) # ws))"

lemma split_on_nonempty [simp]: "split_on c s \<noteq> []"
  by (induction s) (auto split: list.splits)

lemma split_on_no_sep [simp]: "c \<notin> set w \<Longrightarrow> split_on c w = [w]"
  by (induction w) auto

lemma split_on_append_sep:
  "c \<notin> set w \<Longrightarrow> split_on c (w @ c # s) = w # split_on c s"
proof (induction w)
  case Nil
  then show ?case by simp
next
  case (Cons x w)
  then show ?case by auto
qed

text \<open>Splitting a joined list gives the list back when no piece holds the separator.\<close>

lemma split_on_join:
  assumes "xs \<noteq> []" and "\<forall>w \<in> set xs. c \<notin> set w"
  shows "split_on c (join [c] xs) = xs"
  using assms
proof (induction "[c]" xs rule: join.induct)
  case 1
  then show ?case by simp
next
  case (2 x)
  then show ?case by simp
next
  case (3 x y ys)
  then show ?case by (simp add: split_on_append_sep)
qed

lemma filter_eq_distinct:
  "distinct xs \<Longrightarrow> filter (\<lambda>q. x = q) xs = (if x \<in> set xs then [x] else [])"
  by (induction xs) auto

end
