(* ===== verification/Js.thy ===== *)
theory Js
  imports Prelude
begin

text \<open>
  The parts of the JavaScript runtime that the widget's script calls:
  \<open>Math.round\<close>, \<open>Number.prototype.toFixed\<close>, the decimal text of an integral
  number (what a template literal \<open>${r}\<close> prints for the colour channels) and
  the reading of a decimal string back into a number (the unary \<open>+\<close> in
  \<open>+v.toFixed(6)\<close>). They follow the ECMAScript definitions on exact reals.
  The lemmas read a \<open>toFixed\<close> text back (rounding to \<open>f\<close> decimals, used
  for the tick labels), show that printing an integer is injective, and
  that a value on the grid of hundredths printed with four decimals ends
  in \<open>00\<close>.
\<close>

subsection \<open>Decimal digits\<close>

definition digit_char :: "nat \<Rightarrow> char" where
  "digit_char d = ''0123456789'' ! d"

text \<open>Decimal digits of a natural number, most significant first, without leading zeros.\<close>

fun dec_digits :: "nat \<Rightarrow> string" where
  "dec_digits n = (if n < 10 then [digit_char n] else dec_digits (n div 10) @ [digit_char (n mod 10)])"

declare dec_digits.simps [simp del]

text \<open>The value of a string of decimal digits (leading zeros allowed).\<close>

definition digits_val :: "string \<Rightarrow> nat" where
  "digits_val s = foldl (\<lambda>n c. 10 * n + (of_char c - 48)) 0 s"

definition is_digit :: "char \<Rightarrow> bool" where
  "is_digit c \<longleftrightarrow> 48 \<le> (of_char c :: nat) \<and> (of_char c :: nat) < 58"


subsection \<open>Math.round and integer printing\<close>

text \<open>\<open>Math.round(x)\<close>: the integer nearest to \<open>x\<close>, ties towards \<open>+\<infinity>\<close>.\<close>

definition js_round :: "js_number \<Rightarrow> int" where
  "js_round x = \<lfloor>x + 1 / 2\<rfloor>"

text \<open>\<open>Number::toString\<close> of an integral number (below \<open>10^21\<close>): optional sign, then digits.\<close>

definition int_str :: "int \<Rightarrow> string" where
  "int_str i = (if i < 0 then CHR ''-'' # dec_digits (nat (- i)) else dec_digits (nat i))"


subsection \<open>Number.prototype.toFixed\<close>

text \<open>
  ECMAScript \<open>Number.prototype.toFixed(f)\<close> for a finite \<open>x\<close>: the sign is
  taken off first; from \<open>10^21\<close> on the result is \<open>ToString(x)\<close> (the
  parameter \<open>ns\<close>); otherwise \<open>n\<close> is the integer with \<open>n / 10^f - x\<close>
  closest to zero, the larger one on a tie, printed with at least \<open>f + 1\<close>
  digits and a point before the last \<open>f\<close>.
\<close>

text \<open>The digit steps of the algorithm: \<open>n\<close> printed, padded with zeros and split at the point.\<close>

definition fixed_digits :: "nat \<Rightarrow> nat \<Rightarrow> string" where
  "fixed_digits f n =
     (let m = (if n = 0 then ''0'' else dec_digits n)
      in if f = 0 then m
         else
           (let k = length m;
                m' = (if k \<le> f then replicate (f + 1 - k) (CHR ''0'') @ m else m);
                k' = length m'
            in take (k' - f) m' @ ''.'' @ drop (k' - f) m'))"

definition toFixed :: "num_fmt \<Rightarrow> nat \<Rightarrow> js_number \<Rightarrow> string" where
  "toFixed ns f x =
     (let s = (if x < 0 then ''-'' else '''');
          a = \<bar>x\<bar>
      in if 10 ^ 21 \<le> a then s @ ns a
         else s @ fixed_digits f (nat \<lfloor>a * 10 ^ f + 1 / 2\<rfloor>))"

text \<open>The number a \<open>toFixed\<close> text stands for: \<open>x\<close> rounded to \<open>f\<close> decimals, half away from zero.\<close>

definition fixed_round :: "nat \<Rightarrow> js_number \<Rightarrow> js_number" where
  "fixed_round f x = (if x < 0 then -1 else 1) * of_int \<lfloor>\<bar>x\<bar> * 10 ^ f + 1 / 2\<rfloor> / 10 ^ f"

text \<open>
  Reading a decimal literal \<open>[-]digits[.digits]\<close> back into a number: the
  \<open>StringToNumber\<close> of ECMAScript on the strings \<open>toFixed\<close> produces.
\<close>

definition parse_unsigned :: "string \<Rightarrow> js_number" where
  "parse_unsigned s =
     (let ip = takeWhile (\<lambda>c. c \<noteq> CHR ''.'') s;
          fp = drop 1 (dropWhile (\<lambda>c. c \<noteq> CHR ''.'') s)
      in real (digits_val ip) + real (digits_val fp) / 10 ^ length fp)"

definition js_to_number :: "string \<Rightarrow> js_number" where
  "js_to_number s = (case s of c # r \<Rightarrow> if c = CHR ''-'' then - parse_unsigned r else parse_unsigned s
                             | [] \<Rightarrow> 0)"

subsection \<open>Facts about digits and rounding\<close>

lemma of_char_digit_char [simp]: "d < 10 \<Longrightarrow> (of_char (digit_char d) :: nat) = 48 + d"
  by (simp add: digit_char_def less_Suc_eq numeral_eq_Suc) (elim disjE; simp)

lemma is_digit_digit_char [simp]: "d < 10 \<Longrightarrow> is_digit (digit_char d)"
  by (simp add: is_digit_def)

lemma digit_char_not_dot [simp]: "d < 10 \<Longrightarrow> CHR ''.'' \<noteq> digit_char d"
proof
  assume "d < 10" and "CHR ''.'' = digit_char d"
  then have "(of_char (digit_char d) :: nat) = of_char (CHR ''.'')" by simp
  with \<open>d < 10\<close> show False by simp
qed

lemma dec_digits_digits: "\<forall>c \<in> set (dec_digits n). is_digit c"
proof (induction n rule: dec_digits.induct)
  case (1 n)
  then show ?case by (subst dec_digits.simps) auto
qed

lemma dec_digits_no_dot: "CHR ''.'' \<notin> set (dec_digits n)"
proof (induction n rule: dec_digits.induct)
  case (1 n)
  then show ?case by (subst dec_digits.simps) auto
qed

lemma dec_digits_nonempty [simp]: "dec_digits n \<noteq> []"
  by (subst dec_digits.simps) simp

lemma digits_val_Nil [simp]: "digits_val [] = 0"
  by (simp add: digits_val_def)

lemma dec_digits_zero: "dec_digits 0 = ''0''"
  by (simp add: dec_digits.simps digit_char_def)

lemma is_digit_not_minus: "is_digit c \<Longrightarrow> c \<noteq> CHR ''-''"
  by (auto simp: is_digit_def)

lemma is_digit_not_dot: "is_digit c \<Longrightarrow> c \<noteq> CHR ''.''"
  by (auto simp: is_digit_def)

lemma digits_val_acc:
  "foldl (\<lambda>n c. 10 * n + (of_char c - 48)) a s = a * 10 ^ length s + digits_val s"
proof (induction s arbitrary: a)
  case Nil
  then show ?case by (simp add: digits_val_def)
next
  case (Cons c s)
  have "foldl (\<lambda>n c. 10 * n + (of_char c - 48)) a (c # s)
      = (10 * a + (of_char c - 48)) * 10 ^ length s + digits_val s"
    using Cons.IH by simp
  moreover have "digits_val (c # s) = (of_char c - 48) * 10 ^ length s + digits_val s"
    using Cons.IH [of "of_char c - 48"] by (simp add: digits_val_def)
  ultimately show ?case by (simp add: algebra_simps)
qed

lemma digits_val_append:
  "digits_val (s @ t) = digits_val s * 10 ^ length t + digits_val t"
proof -
  have "digits_val (s @ t) = foldl (\<lambda>n c. 10 * n + (of_char c - 48)) (digits_val s) t"
    by (simp add: digits_val_def)
  also have "\<dots> = digits_val s * 10 ^ length t + digits_val t"
    by (rule digits_val_acc)
  finally show ?thesis .
qed

lemma digits_val_zeros [simp]: "digits_val (replicate k (CHR ''0'')) = 0"
  by (induction k) (simp_all add: digits_val_def)

lemma digits_val_dec_digits [simp]: "digits_val (dec_digits n) = n"
proof (induction n rule: dec_digits.induct)
  case (1 n)
  show ?case
  proof (cases "n < 10")
    case True
    then show ?thesis by (subst dec_digits.simps) (simp add: digits_val_def)
  next
    case False
    then have "digits_val (dec_digits (n div 10)) = n div 10" using "1.IH" by simp
    with False show ?thesis
      by (subst dec_digits.simps) (simp add: digits_val_append digits_val_def)
  qed
qed


lemma js_round_mono: "x \<le> y \<Longrightarrow> js_round x \<le> js_round y"
  unfolding js_round_def by (simp add: floor_mono)

lemma js_round_int [simp]: "js_round (of_int i) = i"
  unfolding js_round_def by linarith

subsection \<open>Reading a toFixed string back\<close>

lemma takeWhile_no_dot:
  "CHR ''.'' \<notin> set a \<Longrightarrow> takeWhile (\<lambda>c. c \<noteq> CHR ''.'') (a @ b) = a @ takeWhile (\<lambda>c. c \<noteq> CHR ''.'') b"
  by (induction a) auto

lemma dropWhile_no_dot:
  "CHR ''.'' \<notin> set a \<Longrightarrow> dropWhile (\<lambda>c. c \<noteq> CHR ''.'') (a @ b) = dropWhile (\<lambda>c. c \<noteq> CHR ''.'') b"
  by (induction a) auto

lemma parse_unsigned_plain:
  assumes "CHR ''.'' \<notin> set m"
  shows "parse_unsigned m = real (digits_val m)"
proof -
  have t: "takeWhile (\<lambda>c. c \<noteq> CHR ''.'') m = m" and d: "dropWhile (\<lambda>c. c \<noteq> CHR ''.'') m = []"
    using takeWhile_no_dot [OF assms, of "[]"] dropWhile_no_dot [OF assms, of "[]"] by simp_all
  show ?thesis unfolding parse_unsigned_def Let_def t d by simp
qed

lemma parse_unsigned_point:
  assumes "CHR ''.'' \<notin> set a"
  shows "parse_unsigned (a @ ''.'' @ b) = real (digits_val a) + real (digits_val b) / 10 ^ length b"
  using assms by (simp add: parse_unsigned_def takeWhile_no_dot dropWhile_no_dot)

lemma js_to_number_signed:
  assumes "u \<noteq> []" and "hd u \<noteq> CHR ''-''"
  shows "js_to_number (''-'' @ u) = - parse_unsigned u" and "js_to_number u = parse_unsigned u"
  using assms by (auto simp: js_to_number_def split: list.splits)

lemma padded_digits_value:
  assumes "0 < f" and digits: "\<forall>c \<in> set m. is_digit c"
    and m': "m' = (if length m \<le> f then replicate (f + 1 - length m) (CHR ''0'') @ m else m)"
  shows "parse_unsigned (take (length m' - f) m' @ ''.'' @ drop (length m' - f) m')
           = real (digits_val m) / 10 ^ f"
proof -
  let ?a = "take (length m' - f) m'" and ?b = "drop (length m' - f) m'"
  have len: "f < length m'" using m' by auto
  have dig': "\<forall>c \<in> set m'. is_digit c" using digits m' by (auto simp: is_digit_def)
  then have "CHR ''.'' \<notin> set ?a" by (auto dest: in_set_takeD is_digit_not_dot)
  then have "parse_unsigned (?a @ ''.'' @ ?b) = real (digits_val ?a) + real (digits_val ?b) / 10 ^ f"
    using len parse_unsigned_point [of ?a ?b] by simp
  also have "\<dots> = real (digits_val ?a * 10 ^ f + digits_val ?b) / 10 ^ f"
    by (simp add: field_simps)
  also have "digits_val ?a * 10 ^ f + digits_val ?b = digits_val m'"
    using digits_val_append [of ?a ?b] len by simp
  also have "digits_val m' = digits_val m"
    using m' by (simp add: digits_val_append)
  finally show ?thesis .
qed

lemma fixed_digits_m: "(if n = 0 then ''0'' else dec_digits n) = dec_digits n"
  by (simp add: dec_digits_zero)

lemma fixed_digits_value: "parse_unsigned (fixed_digits f n) = real n / 10 ^ f"
proof (cases "f = 0")
  case True
  then show ?thesis
    by (simp add: fixed_digits_def fixed_digits_m parse_unsigned_plain dec_digits_no_dot)
next
  case False
  define m' where "m' = (if length (dec_digits n) \<le> f
                          then replicate (f + 1 - length (dec_digits n)) (CHR ''0'') @ dec_digits n
                          else dec_digits n)"
  have "fixed_digits f n = take (length m' - f) m' @ ''.'' @ drop (length m' - f) m'"
    using False by (simp add: fixed_digits_def Let_def fixed_digits_m m'_def)
  then show ?thesis
    using padded_digits_value [OF _ dec_digits_digits m'_def] False by simp
qed

lemma fixed_digits_head: "fixed_digits f n \<noteq> [] \<and> hd (fixed_digits f n) \<noteq> CHR ''-''"
proof -
  let ?m = "dec_digits n"
  have m: "(if n = 0 then ''0'' else dec_digits n) = ?m" by (rule fixed_digits_m)
  have d: "\<forall>c \<in> set ?m. is_digit c" by (rule dec_digits_digits)
  let ?m' = "if length ?m \<le> f then replicate (f + 1 - length ?m) (CHR ''0'') @ ?m else ?m"
  have "?m' \<noteq> []" by simp
  moreover have "is_digit (hd ?m')"
    using d by (auto simp: is_digit_def)
  moreover have "is_digit (hd ?m)" using d by simp
  ultimately show ?thesis
    by (auto simp: fixed_digits_def Let_def m dest: is_digit_not_minus)
qed

lemma floor_half_nonneg: "0 \<le> a \<Longrightarrow> real (nat \<lfloor>a * 10 ^ f + 1 / 2\<rfloor>) = of_int \<lfloor>a * 10 ^ f + 1 / 2\<rfloor>"
proof -
  assume "0 \<le> a"
  then have "0 \<le> a * 10 ^ f + 1 / 2" by simp
  then show ?thesis by simp
qed

lemma toFixed_read_back:
  assumes "\<bar>x\<bar> < 10 ^ 21"
  shows "js_to_number (toFixed ns f x) = fixed_round f x"
proof -
  let ?r = "\<lfloor>\<bar>x\<bar> * 10 ^ f + 1 / 2\<rfloor>"
  let ?u = "fixed_digits f (nat ?r)"
  have t: "toFixed ns f x = (if x < 0 then ''-'' else '''') @ ?u"
    using assms by (simp add: toFixed_def Let_def)
  have v: "parse_unsigned ?u = of_int ?r / 10 ^ f"
    using fixed_digits_value [of f "nat ?r"] floor_half_nonneg [of "\<bar>x\<bar>" f] by simp
  have h: "?u \<noteq> []" "hd ?u \<noteq> CHR ''-''" using fixed_digits_head by blast+
  show ?thesis
  proof (cases "x < 0")
    case True
    then show ?thesis using t v js_to_number_signed(1) [OF h] by (simp add: fixed_round_def)
  next
    case False
    then show ?thesis using t v js_to_number_signed(2) [OF h] by (simp add: fixed_round_def)
  qed
qed

lemma int_str_chars: "c \<in> set (int_str i) \<Longrightarrow> is_digit c \<or> c = CHR ''-''"
  using dec_digits_digits by (auto simp: int_str_def split: if_splits)

lemma int_str_no_sep: "CHR '' '' \<notin> set (int_str i) \<and> CHR '','' \<notin> set (int_str i)"
  using int_str_chars [of "CHR '' ''" i] int_str_chars [of "CHR '',''" i] by (auto simp: is_digit_def)


text \<open>Reading a printed integer back gives the integer: \<open>int_str\<close> is injective.\<close>

lemma js_to_number_int_str [simp]: "js_to_number (int_str i) = of_int i"
proof -
  have u: "dec_digits n \<noteq> [] \<and> hd (dec_digits n) \<noteq> CHR ''-''" for n
    using dec_digits_digits [of n] is_digit_not_minus dec_digits_nonempty hd_in_set by blast
  show ?thesis
  proof (cases "i < 0")
    case True
    then show ?thesis
      using js_to_number_signed(1) [of "dec_digits (nat (- i))"] u
      by (simp add: int_str_def parse_unsigned_plain dec_digits_no_dot)
  next
    case False
    then show ?thesis
      using js_to_number_signed(2) [of "dec_digits (nat i)"] u
      by (simp add: int_str_def parse_unsigned_plain dec_digits_no_dot)
  qed
qed

lemma int_str_inj: "int_str i = int_str j \<longleftrightarrow> i = j"
  by (metis js_to_number_int_str of_int_eq_iff)


subsection \<open>Trailing zeros\<close>

text \<open>A value on the grid of hundredths printed with four decimals is its two-decimal text and \<open>00\<close>.\<close>

lemma dec_digits_times10: "0 < n \<Longrightarrow> dec_digits (10 * n) = dec_digits n @ ''0''"
  by (subst dec_digits.simps) (simp add: digit_char_def)

lemma dec_digits_times100: "0 < n \<Longrightarrow> dec_digits (100 * n) = dec_digits n @ ''00''"
  using dec_digits_times10 [of n] dec_digits_times10 [of "10 * n"] by simp

lemma fixed_digits_times100:
  assumes "0 < f"
  shows "fixed_digits (f + 2) (100 * n) = fixed_digits f n @ ''00''"
proof -
  define m where "m = dec_digits n"
  have mm: "(if 100 * n = 0 then ''0'' else dec_digits (100 * n)) = m @ ''00'' \<or> (n = 0 \<and> m = ''0'')"
    by (cases "n = 0") (simp_all add: m_def dec_digits_zero dec_digits_times100)
  define m' where "m' = (if length m \<le> f then replicate (f + 1 - length m) (CHR ''0'') @ m else m)"
  have len: "f + 1 \<le> length m'" using dec_digits_nonempty [of n]
    by (cases "length m \<le> f") (simp_all add: m'_def m_def)
  have small: "fixed_digits f n = take (length m' - f) m' @ ''.'' @ drop (length m' - f) m'"
    using assms by (simp add: fixed_digits_def fixed_digits_m m_def [symmetric] m'_def Let_def)
  have big: "fixed_digits (f + 2) (100 * n) = take (length m' - f) m' @ ''.'' @ drop (length m' - f) m' @ ''00''"
  proof (cases "n = 0")
    case True
    then have "m = ''0''" by (simp add: m_def dec_digits_zero)
    obtain g where g: "f = Suc g" using assms by (cases f) auto
    have z: "replicate (f - Suc 0) (CHR ''0'') @ ''00'' = CHR ''0'' # replicate f (CHR ''0'')"
      unfolding g by (simp add: replicate_app_Cons_same)
    show ?thesis using True assms len \<open>m = ''0''\<close> z
      by (simp add: fixed_digits_def m'_def Let_def)
  next
    case False
    then have d: "dec_digits (100 * n) = m @ ''00''" by (simp add: m_def dec_digits_times100)
    have h0: "(100 * n = 0) = False" "(f + 2 = 0) = False" using False by simp_all
    have pad: "(if length (m @ ''00'') \<le> f + 2 then replicate (f + 2 + 1 - length (m @ ''00'')) (CHR ''0'') @ m @ ''00''
           else m @ ''00'') = m' @ ''00''"
      by (simp add: m'_def)
    have "fixed_digits (f + 2) (100 * n)
          = take (length (m' @ ''00'') - (f + 2)) (m' @ ''00'') @ ''.'' @ drop (length (m' @ ''00'') - (f + 2)) (m' @ ''00'')"
      by (simp only: fixed_digits_def Let_def h0 if_False d pad)
    also have "\<dots> = take (length m' - f) m' @ ''.'' @ drop (length m' - f) m' @ ''00''"
      using len by simp
    finally show ?thesis .
  qed
  show ?thesis using small big by simp
qed

lemma toFixed_grid_pad:
  assumes "0 \<le> x" and "x < 10 ^ 21" and "100 * x = of_int k"
  shows "toFixed ns 4 x = toFixed ns 2 x @ ''00''"
proof -
  have k0: "0 \<le> k" using assms(1,3) by (metis of_int_0_le_iff zero_le_mult_iff zero_le_numeral)
  have f2: "\<lfloor>x * 100 + 1 / 2\<rfloor> = k" using assms(3) by (simp add: mult.commute)
  have f4: "\<lfloor>x * 10000 + 1 / 2\<rfloor> = 100 * k"
  proof -
    have "x * 10000 = of_int (100 * k)" using assms(3) by simp
    then show ?thesis by linarith
  qed
  have n: "nat (100 * k) = 100 * nat k" using k0 by (simp add: nat_mult_distrib)
  show ?thesis
    using assms(1,2) fixed_digits_times100 [of 2 "nat k"]
    by (simp add: toFixed_def Let_def f2 f4 n)
qed

end
