(* ===== verification/MathModel.thy ===== *)
theory MathModel
  imports Js
begin

text \<open>
  The mathematics of the widget (script of \<open>App.svelte\<close>, lines 25--30 and
  the first two reactive declarations): the parabola \<open>f(x) = x\<^sup>2 - 2x + 3\<close>,
  its derivative, and the difference quotient that the secant's slope is.
  The constants are named \<open>f_fn\<close> and \<open>df_fn\<close> (the source's \<open>f\<close> and
  \<open>df\<close>) so that \<open>f\<close> stays free as a variable name. The theory proves that
  \<open>df\<close> is the exact derivative of \<open>f\<close> and the closed form of the
  difference quotient for this parabola.
\<close>

definition f_fn :: "js_number \<Rightarrow> js_number" where
  "f_fn x = x * x - 2 * x + 3"

definition df_fn :: "js_number \<Rightarrow> js_number" where
  "df_fn x = 2 * x - 2"

text \<open>\<open>$: slope_sek = (f(x0 + deltaX) - f(x0)) / deltaX\<close>.\<close>

definition sec_slope :: "js_number \<Rightarrow> js_number \<Rightarrow> js_number" where
  "sec_slope x0 deltaX = (f_fn (x0 + deltaX) - f_fn x0) / deltaX"

text \<open>The lines drawn for secant and tangent: \<open>x => f(x0) + slope * (x - x0)\<close>.\<close>

definition line_through :: "js_number \<Rightarrow> js_number \<Rightarrow> js_number \<Rightarrow> js_number" where
  "line_through x0 slope x = f_fn x0 + slope * (x - x0)"

lemmas math_defs [sek_defs] = f_fn_def df_fn_def sec_slope_def line_through_def

lemma sec_slope_numerator: "f_fn (x0 + d) - f_fn x0 = d * (df_fn x0 + d)"
  by (simp add: f_fn_def df_fn_def algebra_simps)

lemma sec_slope_eq: "d \<noteq> 0 \<Longrightarrow> sec_slope x0 d = df_fn x0 + d"
  by (simp add: sec_slope_def sec_slope_numerator)

text \<open>
  Claim C15. For every nonzero step the secant slope of this parabola is
  the tangent slope plus the step: \<open>slope_sek = f'(x0) + \<Delta>x\<close>; at
  \<open>x0 = 2\<close>, \<open>\<Delta>x = 1\<close> it is \<open>3\<close>, at \<open>\<Delta>x = 0.01\<close> it is \<open>2.01\<close>.
\<close>

theorem sec_slope_closed:
  assumes "deltaX \<noteq> 0"
  shows "sec_slope x0 deltaX = df_fn x0 + deltaX"
  using assms by (rule sec_slope_eq)

theorem sec_slope_closed_witness:
  "(1::real) \<noteq> 0 \<and> sec_slope 2 1 = 3 \<and> (1 / 100 :: real) \<noteq> 0 \<and> sec_slope 2 (1 / 100) = 201 / 100"
proof -
  have a: "sec_slope 2 1 = df_fn 2 + 1" by (rule sec_slope_closed) simp
  have b: "sec_slope 2 (1 / 100) = df_fn 2 + 1 / 100" by (rule sec_slope_closed) simp
  show ?thesis using a b by (simp add: df_fn_def)
qed

text \<open>
  Claim C16. \<open>df\<close> is the exact derivative of \<open>f\<close> at every point, not an
  approximation: the tangent drawn with slope \<open>df(x0)\<close> is the tangent.
\<close>

theorem df_is_derivative: "(f_fn has_real_derivative df_fn x) (at x)"
  unfolding f_fn_def [abs_def] df_fn_def
  by (auto intro!: derivative_eq_intros)

end
