(* ===== verification/Viewport.thy ===== *)
theory Viewport
  imports MathModel
begin

text \<open>
  The coordinate mapper and the curve sampler of \<open>App.svelte\<close> (script
  lines 40--72): the fixed SVG viewBox and padding, the mathematical window
  \<open>[0,4] \<times> [0,9]\<close>, the affine maps \<open>toSvgX\<close> and \<open>toSvgY\<close> (the latter
  flipping the vertical axis), \<open>makeLine\<close>, which prints a polyline's
  \<open>points\<close> attribute, and the 300 sample abscissae \<open>xs\<close>. The record
  field names carry a \<open>pad_\<close> prefix because \<open>top\<close> is a constant of HOL.
\<close>

record pad =
  pad_top :: js_number
  pad_right :: js_number
  pad_bottom :: js_number
  pad_left :: js_number

definition VW :: js_number where "VW = 600"
definition VH :: js_number where "VH = 400"

definition PAD :: pad where
  "PAD = \<lparr>pad_top = 20, pad_right = 20, pad_bottom = 50, pad_left = 55\<rparr>"

definition xMin :: js_number where "xMin = 0"
definition xMax :: js_number where "xMax = 4"
definition yMin :: js_number where "yMin = 0"
definition yMax :: js_number where "yMax = 9"

definition plotW :: js_number where "plotW = VW - pad_left PAD - pad_right PAD"
definition plotH :: js_number where "plotH = VH - pad_top PAD - pad_bottom PAD"

definition toSvgX :: "js_number \<Rightarrow> js_number" where
  "toSvgX x = pad_left PAD + (x - xMin) / (xMax - xMin) * plotW"

definition toSvgY :: "js_number \<Rightarrow> js_number" where
  "toSvgY y = pad_top PAD + (1 - (y - yMin) / (yMax - yMin)) * plotH"

text \<open>
  \<open>makeLine(xArr, fn)\<close>: each abscissa mapped to \<open>`${toSvgX(x)},${toSvgY(fn(x))}`\<close>,
  the pieces joined by a space. \<open>ns\<close> prints a number (\<open>Number::toString\<close>).
\<close>

definition point_str :: "num_fmt \<Rightarrow> js_number \<times> js_number \<Rightarrow> string" where
  "point_str ns p = ns (fst p) @ '','' @ ns (snd p)"

definition makeLine :: "num_fmt \<Rightarrow> js_number list \<Rightarrow> (js_number \<Rightarrow> js_number) \<Rightarrow> string" where
  "makeLine ns xArr fn = join '' '' (map (\<lambda>x. point_str ns (toSvgX x, toSvgY (fn x))) xArr)"

text \<open>\<open>Array.from({ length: 300 }, (_, i) => xMin + i * (xMax - xMin) / 299)\<close>.\<close>

definition xs :: "js_number list" where
  "xs = map (\<lambda>i. xMin + real i * (xMax - xMin) / 299) [0..<300]"

lemmas viewport_defs [sek_defs] =
  VW_def VH_def PAD_def xMin_def xMax_def yMin_def yMax_def plotW_def plotH_def

lemma plotW_val [simp]: "plotW = 525"
  by (simp add: viewport_defs)

lemma plotH_val [simp]: "plotH = 330"
  by (simp add: viewport_defs)

lemma toSvgX_affine: "toSvgX x = 55 + x * (525 / 4)"
  by (simp add: toSvgX_def viewport_defs)

lemma toSvgY_affine: "toSvgY y = 350 - y * (110 / 3)"
  by (simp add: toSvgY_def viewport_defs field_simps)

text \<open>
  Claim C17. \<open>toSvgX\<close> is strictly increasing and \<open>toSvgY\<close> strictly
  decreasing: a mathematically larger \<open>y\<close> is drawn higher up although the
  SVG's \<open>y\<close> axis points down (the \<open>1 - \<dots>\<close> flip).
\<close>

theorem toSvg_orientation:
  assumes "a < b"
  shows "toSvgX a < toSvgX b \<and> toSvgY b < toSvgY a"
  using assms by (simp add: toSvgX_affine toSvgY_affine)

theorem toSvg_orientation_witness:
  "(0::real) < 9 \<and> toSvgX 0 < toSvgX 9 \<and> toSvgY 9 < toSvgY 0"
proof -
  have h: "(0::real) < 9" by simp
  show ?thesis using h toSvg_orientation [OF h] by simp
qed

text \<open>
  Claim C18. The mapper does not clamp: a point is inside the mathematical
  window exactly when its image is inside the plot rectangle, so values
  outside the window are drawn outside the rectangle.
\<close>

theorem toSvg_window_iff:
  "((xMin \<le> x \<and> x \<le> xMax) \<longleftrightarrow> (pad_left PAD \<le> toSvgX x \<and> toSvgX x \<le> pad_left PAD + plotW))
   \<and> ((yMin \<le> y \<and> y \<le> yMax) \<longleftrightarrow> (pad_top PAD \<le> toSvgY y \<and> toSvgY y \<le> pad_top PAD + plotH))"
  by (auto simp: toSvgX_affine toSvgY_affine viewport_defs)

text \<open>
  Claim C19. The sample abscissae: 300 values, strictly increasing, the
  first \<open>xMin\<close> and the last \<open>xMax\<close>, all inside the window.
\<close>

theorem xs_grid:
  "length xs = 300 \<and> xs ! 0 = xMin \<and> xs ! 299 = xMax
   \<and> sorted_wrt (<) xs \<and> set xs \<subseteq> {xMin..xMax}"
proof -
  have s: "sorted_wrt (<) xs"
    unfolding xs_def sorted_wrt_map
    by (rule sorted_wrt_mono_rel [OF _ sorted_wrt_upt]) (simp add: viewport_defs)
  have b: "set xs \<subseteq> {xMin..xMax}"
    by (auto simp: xs_def viewport_defs)
  show ?thesis using s b by (simp add: xs_def viewport_defs)
qed

lemma point_str_split:
  "CHR '','' \<notin> set (ns a) \<Longrightarrow> CHR '','' \<notin> set (ns b) \<Longrightarrow> split_on (CHR '','') (point_str ns (a, b)) = [ns a, ns b]"
  by (simp add: point_str_def split_on_append_sep)

text \<open>
  Claim C20. The \<open>points\<close> string \<open>makeLine\<close> prints reads back, split at
  the spaces and then at the commas, as the list of mapped points in the
  order of the abscissae, whenever the number printer emits neither a
  space nor a comma (true of \<open>Number::toString\<close>).
\<close>

theorem makeLine_roundtrip:
  assumes "\<forall>r. CHR '' '' \<notin> set (ns r) \<and> CHR '','' \<notin> set (ns r)" and "xArr \<noteq> []"
  shows "map (split_on (CHR '','')) (split_on (CHR '' '') (makeLine ns xArr fn))
           = map (\<lambda>x. [ns (toSvgX x), ns (toSvgY (fn x))]) xArr"
proof -
  have "split_on (CHR '' '') (makeLine ns xArr fn) = map (\<lambda>x. point_str ns (toSvgX x, toSvgY (fn x))) xArr"
    unfolding makeLine_def using assms by (intro split_on_join) (auto simp: point_str_def)
  then show ?thesis using assms by (simp add: point_str_split)
qed

theorem makeLine_roundtrip_witness:
  "(\<forall>r. CHR '' '' \<notin> set (int_str (js_round r)) \<and> CHR '','' \<notin> set (int_str (js_round r)))
   \<and> [0::real] \<noteq> []
   \<and> map (split_on (CHR '','')) (split_on (CHR '' '') (makeLine (\<lambda>r. int_str (js_round r)) [0] f_fn))
       = [[''55'', ''240'']]"
proof -
  have h: "\<forall>r. CHR '' '' \<notin> set (int_str (js_round r)) \<and> CHR '','' \<notin> set (int_str (js_round r))"
    using int_str_no_sep by blast
  have "[0::real] \<noteq> []" by simp
  note rt = makeLine_roundtrip [OF h this, of f_fn]
  have "js_round (toSvgX 0) = 55" and "js_round (toSvgY (f_fn 0)) = 240"
    by (simp_all add: toSvgX_affine toSvgY_affine f_fn_def js_round_def)
  then show ?thesis using h rt by (simp add: int_str_def dec_digits.simps digit_char_def)
qed

end
