(* ===== verification/Color.thy ===== *)
theory Color
  imports Js
begin

text \<open>
  The error colour of \<open>App.svelte\<close> (script lines 121--133): the ratio
  \<open>errorRatio = Math.min(1, |slope_sek - slope_tan| / 3)\<close> and
  \<open>interpolateColor(t)\<close>, which rounds each channel of the linear
  interpolation between green \<open>#27ae60\<close> (\<open>t = 0\<close>) and red \<open>#c0392b\<close>
  (\<open>t = 1\<close>) and prints \<open>rgb(r,g,b)\<close>. The hexadecimal literals of the
  source are written in decimal: \<open>0x27 = 39\<close>, \<open>0xae = 174\<close>,
  \<open>0x60 = 96\<close>, \<open>0xc0 = 192\<close>, \<open>0x39 = 57\<close>, \<open>0x2b = 43\<close>.
\<close>

definition error_ratio :: "js_number \<Rightarrow> js_number \<Rightarrow> js_number" where
  "error_ratio slope_sek slope_tan = min 1 (\<bar>slope_sek - slope_tan\<bar> / 3)"

text \<open>The three \<open>Math.round\<close> lines of \<open>interpolateColor\<close>.\<close>

definition color_channels :: "js_number \<Rightarrow> int \<times> int \<times> int" where
  "color_channels t =
     (js_round (39 + t * (192 - 39)),
      js_round (174 + t * (57 - 174)),
      js_round (96 + t * (43 - 96)))"

text \<open>The returned template literal \<open>`rgb(${r},${g},${b})`\<close>.\<close>

definition rgb_str :: "int \<times> int \<times> int \<Rightarrow> string" where
  "rgb_str c = (case c of (r, g, b) \<Rightarrow>
     ''rgb('' @ int_str r @ '','' @ int_str g @ '','' @ int_str b @ '')'')"

definition interpolateColor :: "js_number \<Rightarrow> string" where
  "interpolateColor t = rgb_str (color_channels t)"

lemma js_round_between:
  assumes "lo \<le> x" and "x \<le> hi"
  shows "lo \<le> js_round x \<and> js_round x \<le> hi"
proof -
  have "js_round (of_int lo) \<le> js_round x" using assms(1) by (rule js_round_mono)
  moreover have "js_round x \<le> js_round (of_int hi)" using assms(2) by (rule js_round_mono)
  ultimately show ?thesis by simp
qed

text \<open>The printed colour determines its red channel.\<close>

lemma rgb_str_red:
  assumes "rgb_str (r, g, b) = rgb_str (r', g', b')"
  shows "r = r'"
proof -
  have k: "takeWhile (\<lambda>x. x \<noteq> CHR '','') (drop 4 (rgb_str (r, g, b))) = int_str r" for r g b
  proof -
    have "\<forall>x \<in> set (int_str r). x \<noteq> CHR '',''" using int_str_no_sep [of r] by blast
    then show ?thesis by (simp add: rgb_str_def takeWhile_append2)
  qed
  show ?thesis using k [of r g b] k [of r' g' b'] assms by (simp add: int_str_inj)
qed

text \<open>Up to two thirds of the scale the colour stays clear of the large-error red.\<close>

lemma interpolateColor_below_red:
  assumes "0 \<le> t" and "t \<le> 2 / 3"
  shows "fst (color_channels t) \<le> 141 \<and> interpolateColor t \<noteq> interpolateColor 1"
proof -
  have "39 \<le> 39 + t * (192 - 39) \<and> 39 + t * (192 - 39) \<le> 141" using assms by simp
  then have red: "fst (color_channels t) \<le> 141"
    using js_round_between [of 39 "39 + t * (192 - 39)" 141] by (simp add: color_channels_def)
  have one: "color_channels 1 = (192, 57, 43)" by (simp add: color_channels_def js_round_def)
  have "interpolateColor t \<noteq> interpolateColor 1"
  proof
    assume "interpolateColor t = interpolateColor 1"
    then have "rgb_str (color_channels t) = rgb_str (192, 57, 43)"
      using one by (simp add: interpolateColor_def)
    then have "fst (color_channels t) = 192"
      by (cases "color_channels t") (auto dest: rgb_str_red)
    with red show False by simp
  qed
  with red show ?thesis by simp
qed

text \<open>
  Claim C21. For every ratio \<open>t\<close> in \<open>[0,1]\<close> each channel stays between
  its two endpoint values, hence inside \<open>[0,255]\<close>: the string is always a
  valid CSS colour.
\<close>

theorem color_channels_bounds:
  assumes "0 \<le> t" and "t \<le> 1"
  shows "(case color_channels t of (r, g, b) \<Rightarrow>
            39 \<le> r \<and> r \<le> 192 \<and> 57 \<le> g \<and> g \<le> 174 \<and> 43 \<le> b \<and> b \<le> 96
            \<and> 0 \<le> r \<and> r \<le> 255 \<and> 0 \<le> g \<and> g \<le> 255 \<and> 0 \<le> b \<and> b \<le> 255)"
proof -
  have r: "39 \<le> js_round (39 + t * (192 - 39)) \<and> js_round (39 + t * (192 - 39)) \<le> 192"
    using assms by (intro js_round_between) simp_all
  have g: "57 \<le> js_round (174 + t * (57 - 174)) \<and> js_round (174 + t * (57 - 174)) \<le> 174"
    using assms by (intro js_round_between) simp_all
  have b: "43 \<le> js_round (96 + t * (43 - 96)) \<and> js_round (96 + t * (43 - 96)) \<le> 96"
    using assms by (intro js_round_between) simp_all
  show ?thesis using r g b by (simp add: color_channels_def)
qed

theorem color_channels_bounds_witness:
  "0 \<le> (1 / 2 :: real) \<and> (1 / 2 :: real) \<le> 1 \<and> color_channels (1 / 2) = (116, 116, 70)
   \<and> (case color_channels (1 / 2) of (r, g, b) \<Rightarrow>
        39 \<le> r \<and> r \<le> 192 \<and> 57 \<le> g \<and> g \<le> 174 \<and> 43 \<le> b \<and> b \<le> 96
        \<and> 0 \<le> r \<and> r \<le> 255 \<and> 0 \<le> g \<and> g \<le> 255 \<and> 0 \<le> b \<and> b \<le> 255)"
proof -
  have h: "0 \<le> (1 / 2 :: real)" "(1 / 2 :: real) \<le> 1" by simp_all
  have "color_channels (1 / 2) = (116, 116, 70)"
    by (simp add: color_channels_def js_round_def)
  then show ?thesis using h color_channels_bounds [OF h] by simp
qed

text \<open>
  Claim C22. The colour moves monotonically from green to red: a larger
  ratio never lowers the red channel and never raises green or blue.
\<close>

theorem color_channels_mono:
  assumes "t \<le> t'"
  shows "fst (color_channels t) \<le> fst (color_channels t')
         \<and> fst (snd (color_channels t')) \<le> fst (snd (color_channels t))
         \<and> snd (snd (color_channels t')) \<le> snd (snd (color_channels t))"
  using assms by (simp add: color_channels_def js_round_mono mult_right_mono)

theorem color_channels_mono_witness:
  "(0 :: real) \<le> 1
   \<and> fst (color_channels 0) \<le> fst (color_channels 1)
   \<and> fst (snd (color_channels 1)) \<le> fst (snd (color_channels 0))
   \<and> snd (snd (color_channels 1)) \<le> snd (snd (color_channels 0))"
proof -
  have h: "(0 :: real) \<le> 1" by simp
  show ?thesis using h color_channels_mono [OF h] by simp
qed

end
