(* ===== verification/Reactive.thy ===== *)
theory Reactive
  imports Viewport Color
begin

text \<open>
  The component state of \<open>App.svelte\<close> and its reactive declarations
  (\<open>$:\<close>, script lines 81--104 and 125--126), run the way the Svelte 3
  runtime runs them. Every top-level variable of the script is a field of
  the record \<open>comp\<close>. An assignment to a variable (\<open>$$invalidate\<close>)
  stores the value and marks the variable dirty when the new value differs
  from the old one (\<open>safe_not_equal\<close>: \<open>!==\<close> for numbers and strings,
  always for objects such as \<open>px0\<close>, \<open>px1\<close>). Before the DOM is patched,
  \<open>$$.update\<close> runs the reactive statements in their (topologically
  sorted) source order; a statement runs only if one of the variables it
  reads is dirty, and its own assignment marks its variable dirty in turn.
  \<open>funcPoints\<close> reads no reactive variable and is computed once, when the
  instance is created (\<open>main.js\<close>: \<open>new App({target})\<close>).

  The reference is \<open>spec_state\<close>: every derived field computed directly
  from \<open>(x0, deltaX)\<close>. The theorems show that the incremental,
  dirty-driven update computes exactly the reference after every
  assignment, that it equals running every statement eagerly, and that
  mounting the component yields the reference as well.
\<close>

datatype var =
  V_deltaX | V_x0 | V_slope_sek | V_slope_tan | V_slopeDisplay | V_errorDisplay
  | V_funcPoints | V_sekantePoints | V_tangentePoints | V_px0 | V_px1
  | V_errorRatio | V_errorColor

text \<open>The object literal \<open>{ x: \<dots>, y: \<dots> }\<close> of a marker point.\<close>

record svg_pt =
  pt_x :: js_number
  pt_y :: js_number

record comp =
  deltaX :: js_number
  x0 :: js_number
  slope_sek :: js_number
  slope_tan :: js_number
  slopeDisplay :: string
  errorDisplay :: string
  funcPoints :: string
  sekantePoints :: string
  tangentePoints :: string
  px0 :: svg_pt
  px1 :: svg_pt
  errorRatio :: js_number
  errorColor :: string

type_synonym flush_state = "comp \<times> var set"

text \<open>The value a variable holds, for the runtime's change test and for the proofs.\<close>

datatype jsval = JNum js_number | JStr string | JObj svg_pt

fun val_of :: "var \<Rightarrow> comp \<Rightarrow> jsval" where
  "val_of V_deltaX c = JNum (deltaX c)"
| "val_of V_x0 c = JNum (x0 c)"
| "val_of V_slope_sek c = JNum (slope_sek c)"
| "val_of V_slope_tan c = JNum (slope_tan c)"
| "val_of V_slopeDisplay c = JStr (slopeDisplay c)"
| "val_of V_errorDisplay c = JStr (errorDisplay c)"
| "val_of V_funcPoints c = JStr (funcPoints c)"
| "val_of V_sekantePoints c = JStr (sekantePoints c)"
| "val_of V_tangentePoints c = JStr (tangentePoints c)"
| "val_of V_px0 c = JObj (px0 c)"
| "val_of V_px1 c = JObj (px1 c)"
| "val_of V_errorRatio c = JNum (errorRatio c)"
| "val_of V_errorColor c = JStr (errorColor c)"

text \<open>
  A compiled reactive statement \<open>if (dirty & deps) { $$invalidate(i, x = e) }\<close>:
  the variables it reads, the variable it assigns, whether that variable
  holds an object, and the assignment itself.
\<close>

record stmt =
  s_deps :: "var list"
  s_target :: var
  s_obj :: bool
  s_eval :: "comp \<Rightarrow> comp"

text \<open>
  Running one statement: skipped unless a variable it reads is dirty; the
  assignment marks its variable dirty when \<open>safe_not_equal\<close> holds (an
  object, or a value that is not \<open>===\<close> the old one).
\<close>

definition run_stmt :: "stmt \<Rightarrow> flush_state \<Rightarrow> flush_state" where
  "run_stmt st cd =
     (case cd of (c, d) \<Rightarrow>
        if list_ex (\<lambda>w. w \<in> d) (s_deps st)
        then (let c' = s_eval st c
              in (c', if s_obj st \<or> val_of (s_target st) c' \<noteq> val_of (s_target st) c
                      then insert (s_target st) d else d))
        else (c, d))"

definition marker :: "js_number \<Rightarrow> svg_pt" where
  "marker x = \<lparr>pt_x = toSvgX x, pt_y = toSvgY (f_fn x)\<rparr>"

text \<open>
  \<open>$: errorRatio = Math.min(1, Math.abs(slope_sek - slope_tan) / 3)\<close> and
  \<open>$: errorColor = interpolateColor(errorRatio)\<close> (lines 125--126), the
  last two reactive declarations of the script.
\<close>

definition color_stmts :: "stmt list" where
  "color_stmts =
     [\<lparr>s_deps = [V_slope_sek, V_slope_tan], s_target = V_errorRatio, s_obj = False,
       s_eval = \<lambda>c. c\<lparr>errorRatio := error_ratio (slope_sek c) (slope_tan c)\<rparr>\<rparr>,
      \<lparr>s_deps = [V_errorRatio], s_target = V_errorColor, s_obj = False,
       s_eval = \<lambda>c. c\<lparr>errorColor := interpolateColor (errorRatio c)\<rparr>\<rparr>]"

text \<open>The reactive statements of the script, in source order: lines 81--104, then the colour statements.\<close>

definition reactive_stmts :: "num_fmt \<Rightarrow> stmt list" where
  "reactive_stmts ns =
     [\<lparr>s_deps = [V_x0, V_deltaX], s_target = V_slope_sek, s_obj = False,
       s_eval = \<lambda>c. c\<lparr>slope_sek := sec_slope (x0 c) (deltaX c)\<rparr>\<rparr>,
      \<lparr>s_deps = [V_x0], s_target = V_slope_tan, s_obj = False,
       s_eval = \<lambda>c. c\<lparr>slope_tan := df_fn (x0 c)\<rparr>\<rparr>,
      \<lparr>s_deps = [V_slope_sek], s_target = V_slopeDisplay, s_obj = False,
       s_eval = \<lambda>c. c\<lparr>slopeDisplay := toFixed ns 4 (slope_sek c)\<rparr>\<rparr>,
      \<lparr>s_deps = [V_slope_sek, V_slope_tan], s_target = V_errorDisplay, s_obj = False,
       s_eval = \<lambda>c. c\<lparr>errorDisplay := toFixed ns 4 \<bar>slope_sek c - slope_tan c\<bar>\<rparr>\<rparr>,
      \<lparr>s_deps = [V_x0, V_slope_sek], s_target = V_sekantePoints, s_obj = False,
       s_eval = \<lambda>c. c\<lparr>sekantePoints := makeLine ns xs (line_through (x0 c) (slope_sek c))\<rparr>\<rparr>,
      \<lparr>s_deps = [V_x0, V_slope_tan], s_target = V_tangentePoints, s_obj = False,
       s_eval = \<lambda>c. c\<lparr>tangentePoints := makeLine ns xs (line_through (x0 c) (slope_tan c))\<rparr>\<rparr>,
      \<lparr>s_deps = [V_x0], s_target = V_px0, s_obj = True,
       s_eval = \<lambda>c. c\<lparr>px0 := marker (x0 c)\<rparr>\<rparr>,
      \<lparr>s_deps = [V_x0, V_deltaX], s_target = V_px1, s_obj = True,
       s_eval = \<lambda>c. c\<lparr>px1 := marker (x0 c + deltaX c)\<rparr>\<rparr>]
     @ color_stmts"

text \<open>\<open>$$.update\<close>: the statements run in order over the component and the dirty set.\<close>

definition svelte_update :: "num_fmt \<Rightarrow> flush_state \<Rightarrow> flush_state" where
  "svelte_update ns cd = fold run_stmt (reactive_stmts ns) cd"

text \<open>
  An assignment from an event handler (\<open>deltaX = preset\<close>, the slider's
  \<open>bind:value\<close>): the value is stored; if it differs from the old one the
  variable is dirty and the flush runs \<open>$$.update\<close>.
\<close>

definition set_deltaX :: "num_fmt \<Rightarrow> comp \<Rightarrow> js_number \<Rightarrow> comp" where
  "set_deltaX ns c v =
     (if deltaX c \<noteq> v then fst (svelte_update ns (c\<lparr>deltaX := v\<rparr>, {V_deltaX}))
      else c\<lparr>deltaX := v\<rparr>)"

text \<open>The transition on \<open>x0\<close> the state admits, although no control of the widget performs it.\<close>

definition set_x0 :: "num_fmt \<Rightarrow> comp \<Rightarrow> js_number \<Rightarrow> comp" where
  "set_x0 ns c v =
     (if x0 c \<noteq> v then fst (svelte_update ns (c\<lparr>x0 := v\<rparr>, {V_x0}))
      else c\<lparr>x0 := v\<rparr>)"

text \<open>
  Creating the instance (\<open>new App({target})\<close> in \<open>main.js\<close>): the script
  body assigns \<open>deltaX = 1.5\<close>, \<open>x0 = 2.0\<close> and the dependency-free
  \<open>funcPoints\<close>; then \<open>$$.update\<close> runs with every variable dirty. The
  other fields of \<open>c0\<close> stand for the still uninitialised variables.
\<close>

definition mount :: "num_fmt \<Rightarrow> comp \<Rightarrow> comp" where
  "mount ns c0 =
     fst (svelte_update ns
       (c0\<lparr>deltaX := 3 / 2, x0 := 2, funcPoints := makeLine ns xs f_fn\<rparr>, UNIV))"

text \<open>The reference: the whole state as a pure function of \<open>(x0, deltaX)\<close>.\<close>

definition spec_state :: "num_fmt \<Rightarrow> js_number \<Rightarrow> js_number \<Rightarrow> comp" where
  "spec_state ns x dx =
     (let s = sec_slope x dx; t = df_fn x; r = error_ratio s t
      in \<lparr>deltaX = dx, x0 = x, slope_sek = s, slope_tan = t,
          slopeDisplay = toFixed ns 4 s, errorDisplay = toFixed ns 4 \<bar>s - t\<bar>,
          funcPoints = makeLine ns xs f_fn,
          sekantePoints = makeLine ns xs (line_through x s),
          tangentePoints = makeLine ns xs (line_through x t),
          px0 = marker x, px1 = marker (x + dx),
          errorRatio = r, errorColor = interpolateColor r\<rparr>)"

definition consistent :: "num_fmt \<Rightarrow> comp \<Rightarrow> bool" where
  "consistent ns c \<longleftrightarrow> c = spec_state ns (x0 c) (deltaX c)"

text \<open>
  A statement is well formed when its assignment writes only its own
  variable and the value it writes depends only on the variables it lists
  as dependencies: the property Svelte's compiler establishes for every
  \<open>$:\<close> declaration, checked here for each statement of the script.
\<close>

definition stmt_wf :: "stmt \<Rightarrow> bool" where
  "stmt_wf st \<longleftrightarrow>
     (\<forall>c w. w \<noteq> s_target st \<longrightarrow> val_of w (s_eval st c) = val_of w c)
     \<and> (\<forall>c c'. list_all (\<lambda>w. val_of w c = val_of w c') (s_deps st)
          \<longrightarrow> val_of (s_target st) (s_eval st c) = val_of (s_target st) (s_eval st c'))"

lemma all_var: "(\<forall>w::var. P w) \<longleftrightarrow>
  P V_deltaX \<and> P V_x0 \<and> P V_slope_sek \<and> P V_slope_tan \<and> P V_slopeDisplay \<and> P V_errorDisplay
  \<and> P V_funcPoints \<and> P V_sekantePoints \<and> P V_tangentePoints \<and> P V_px0 \<and> P V_px1
  \<and> P V_errorRatio \<and> P V_errorColor" (is "?l \<longleftrightarrow> ?r")
proof
  assume ?l
  then show ?r by simp
next
  assume r: ?r
  show ?l
  proof
    fix w
    show "P w" using r by (cases w) simp_all
  qed
qed

lemma comp_eqI_val:
  assumes "\<And>w. val_of w c = val_of w c'"
  shows "c = c'"
proof (rule comp.equality)
  show "deltaX c = deltaX c'" using assms [of V_deltaX] by simp
  show "x0 c = x0 c'" using assms [of V_x0] by simp
  show "slope_sek c = slope_sek c'" using assms [of V_slope_sek] by simp
  show "slope_tan c = slope_tan c'" using assms [of V_slope_tan] by simp
  show "slopeDisplay c = slopeDisplay c'" using assms [of V_slopeDisplay] by simp
  show "errorDisplay c = errorDisplay c'" using assms [of V_errorDisplay] by simp
  show "funcPoints c = funcPoints c'" using assms [of V_funcPoints] by simp
  show "sekantePoints c = sekantePoints c'" using assms [of V_sekantePoints] by simp
  show "tangentePoints c = tangentePoints c'" using assms [of V_tangentePoints] by simp
  show "px0 c = px0 c'" using assms [of V_px0] by simp
  show "px1 c = px1 c'" using assms [of V_px1] by simp
  show "errorRatio c = errorRatio c'" using assms [of V_errorRatio] by simp
  show "errorColor c = errorColor c'" using assms [of V_errorColor] by simp
qed simp

lemma reactive_stmts_wf: "list_all stmt_wf (reactive_stmts ns)"
  by (simp add: reactive_stmts_def color_stmts_def stmt_wf_def all_var)

lemma reactive_stmts_targets: "distinct (map s_target (reactive_stmts ns))"
  by (simp add: reactive_stmts_def color_stmts_def)

lemma spec_state_fix: "list_all (\<lambda>st. s_eval st (spec_state ns x dx) = spec_state ns x dx) (reactive_stmts ns)"
  by (simp add: reactive_stmts_def color_stmts_def spec_state_def Let_def)

lemma eager_spec:
  assumes "funcPoints c = makeLine ns xs f_fn"
  shows "fold s_eval (reactive_stmts ns) c = spec_state ns (x0 c) (deltaX c)"
  using assms by (cases c) (simp add: reactive_stmts_def color_stmts_def spec_state_def Let_def)

lemma run_stmt_run:
  "list_ex (\<lambda>w. w \<in> d) (s_deps st) \<Longrightarrow>
   run_stmt st (c, d) = (s_eval st c,
     if s_obj st \<or> val_of (s_target st) (s_eval st c) \<noteq> val_of (s_target st) c
     then insert (s_target st) d else d)"
  by (simp add: run_stmt_def Let_def)

lemma run_stmt_skip: "\<not> list_ex (\<lambda>w. w \<in> d) (s_deps st) \<Longrightarrow> run_stmt st (c, d) = (c, d)"
  by (simp add: run_stmt_def)

text \<open>
  The heart of the matter: from a state that agrees with a fixpoint \<open>co\<close>
  of the statements outside the dirty set, the dirty-driven run computes
  what running every statement unconditionally computes.
\<close>

lemma fold_run_stmt_eager:
  assumes "list_all stmt_wf sts" and "distinct (map s_target sts)"
    and "list_all (\<lambda>st. s_eval st co = co) sts"
    and "\<forall>w. w \<notin> d \<longrightarrow> val_of w c = val_of w co"
    and "list_all (\<lambda>st. s_target st \<notin> d) sts"
  shows "fst (fold run_stmt sts (c, d)) = fold s_eval sts c"
  using assms
proof (induction sts arbitrary: c d)
  case Nil
  then show ?case by simp
next
  case (Cons st sts)
  let ?v = "s_target st"
  have wf: "stmt_wf st" and tv: "?v \<notin> d" and fx: "s_eval st co = co"
    using Cons.prems(1,3,5) by simp_all
  have tl: "list_all stmt_wf sts" "distinct (map s_target sts)" "list_all (\<lambda>st. s_eval st co = co) sts"
    using Cons.prems(1-3) by simp_all
  have frame: "\<And>w. w \<noteq> ?v \<Longrightarrow> val_of w (s_eval st c) = val_of w c"
    using wf by (simp add: stmt_wf_def)
  have nv: "\<forall>st' \<in> set sts. s_target st' \<noteq> ?v"
  proof
    fix st' assume "st' \<in> set sts"
    then have "s_target st' \<in> set (map s_target sts)" by simp
    with Cons.prems(2) show "s_target st' \<noteq> ?v" by auto
  qed
  show ?case
  proof (cases "list_ex (\<lambda>w. w \<in> d) (s_deps st)")
    case True
    define d' where "d' = (if s_obj st \<or> val_of ?v (s_eval st c) \<noteq> val_of ?v c then insert ?v d else d)"
    have agree: "\<forall>w. w \<notin> d' \<longrightarrow> val_of w (s_eval st c) = val_of w co"
    proof (intro allI impI)
      fix w assume w: "w \<notin> d'"
      show "val_of w (s_eval st c) = val_of w co"
      proof (cases "w = ?v")
        case True
        with w have "val_of ?v (s_eval st c) = val_of ?v c" by (simp add: d'_def split: if_splits)
        with True tv Cons.prems(4) show ?thesis by simp
      next
        case False
        with w have "w \<notin> d" by (simp add: d'_def split: if_splits)
        with False frame Cons.prems(4) show ?thesis by simp
      qed
    qed
    have rest: "list_all (\<lambda>st'. s_target st' \<notin> d') sts"
      using nv Cons.prems(5) by (simp add: list_all_iff d'_def)
    have "fst (fold run_stmt sts (s_eval st c, d')) = fold s_eval sts (s_eval st c)"
      by (rule Cons.IH [OF tl agree rest])
    then show ?thesis using True by (simp add: run_stmt_run d'_def)
  next
    case False
    then have deps: "list_all (\<lambda>w. val_of w c = val_of w co) (s_deps st)"
      using Cons.prems(4) by (auto simp: list_all_iff list_ex_iff)
    have "val_of ?v (s_eval st c) = val_of ?v (s_eval st co)"
      using wf deps by (simp add: stmt_wf_def)
    also have "\<dots> = val_of ?v c" using fx tv Cons.prems(4) by simp
    finally have tgt: "val_of ?v (s_eval st c) = val_of ?v c" .
    have "s_eval st c = c"
    proof (rule comp_eqI_val)
      fix w show "val_of w (s_eval st c) = val_of w c"
        using tgt frame by (cases "w = ?v") simp_all
    qed
    moreover have "fst (fold run_stmt sts (c, d)) = fold s_eval sts c"
      by (rule Cons.IH [OF tl Cons.prems(4)]) (use Cons.prems(5) in simp)
    ultimately show ?thesis using False by (simp add: run_stmt_skip)
  qed
qed

lemma fold_run_stmt_all:
  assumes "list_all (\<lambda>st. s_deps st \<noteq> []) sts"
  shows "fold run_stmt sts (c, UNIV) = (fold s_eval sts c, UNIV)"
  using assms
proof (induction sts arbitrary: c)
  case Nil
  then show ?case by simp
next
  case (Cons st sts)
  then have "list_ex (\<lambda>w. w \<in> UNIV) (s_deps st)" by (cases "s_deps st") simp_all
  with Cons show ?case by (simp add: run_stmt_run)
qed

lemma spec_state_base [simp]: "x0 (spec_state ns x dx) = x" "deltaX (spec_state ns x dx) = dx"
  by (simp_all add: spec_state_def Let_def)

lemma consistent_spec_state: "consistent ns (spec_state ns x dx)"
  by (simp add: consistent_def spec_state_def Let_def)

lemma val_of_upd_deltaX: "w \<noteq> V_deltaX \<Longrightarrow> val_of w (c\<lparr>deltaX := v\<rparr>) = val_of w c"
  by (cases w) simp_all

lemma val_of_upd_x0: "w \<noteq> V_x0 \<Longrightarrow> val_of w (c\<lparr>x0 := v\<rparr>) = val_of w c"
  by (cases w) simp_all

text \<open>
  An assignment to one base variable \<open>b\<close> of a consistent state, followed by
  \<open>$$.update\<close> with \<open>b\<close> dirty, computes the reference state of the new values.
\<close>

lemma update_lazy_eager:
  assumes cons: "consistent ns c"
    and frame: "\<And>w. w \<noteq> b \<Longrightarrow> val_of w c' = val_of w c"
    and base: "b \<in> {V_deltaX, V_x0}"
  shows "fst (svelte_update ns (c', {b})) = fold s_eval (reactive_stmts ns) c'"
proof -
  have co: "c = spec_state ns (x0 c) (deltaX c)" using cons by (simp add: consistent_def)
  have fixp: "list_all (\<lambda>st. s_eval st c = c) (reactive_stmts ns)"
    using spec_state_fix [of ns "x0 c" "deltaX c"] co by simp
  have agree: "\<forall>w. w \<notin> {b} \<longrightarrow> val_of w c' = val_of w c" using frame by simp
  have tg: "list_all (\<lambda>st. s_target st \<notin> {b}) (reactive_stmts ns)"
    using base by (auto simp: reactive_stmts_def color_stmts_def)
  show ?thesis
    unfolding svelte_update_def
    by (rule fold_run_stmt_eager [OF reactive_stmts_wf reactive_stmts_targets fixp agree tg])
qed

lemma update_from_consistent:
  assumes cons: "consistent ns c"
    and frame: "\<And>w. w \<noteq> b \<Longrightarrow> val_of w c' = val_of w c"
    and base: "b \<in> {V_deltaX, V_x0}"
    and fp: "funcPoints c' = funcPoints c"
  shows "fst (svelte_update ns (c', {b})) = spec_state ns (x0 c') (deltaX c')"
proof -
  have co: "c = spec_state ns (x0 c) (deltaX c)" using cons by (simp add: consistent_def)
  have "fst (svelte_update ns (c', {b})) = fold s_eval (reactive_stmts ns) c'"
    by (rule update_lazy_eager [OF cons frame base])
  also have "\<dots> = spec_state ns (x0 c') (deltaX c')"
  proof (rule eager_spec)
    have "funcPoints c = makeLine ns xs f_fn"
      using co by (metis comp.select_convs(7) spec_state_def)
    then show "funcPoints c' = makeLine ns xs f_fn" using fp by simp
  qed
  finally show ?thesis .
qed

lemma set_deltaX_eq:
  assumes "consistent ns c"
  shows "set_deltaX ns c v = spec_state ns (x0 c) v"
proof (cases "deltaX c = v")
  case True
  then have "c\<lparr>deltaX := v\<rparr> = c" by simp
  with True assms show ?thesis by (simp add: set_deltaX_def consistent_def)
next
  case False
  have "fst (svelte_update ns (c\<lparr>deltaX := v\<rparr>, {V_deltaX})) = spec_state ns (x0 c) v"
    using update_from_consistent [OF assms, of V_deltaX "c\<lparr>deltaX := v\<rparr>"]
    by (simp add: val_of_upd_deltaX)
  with False show ?thesis by (simp add: set_deltaX_def)
qed

lemma set_x0_eq:
  assumes "consistent ns c"
  shows "set_x0 ns c v = spec_state ns v (deltaX c)"
proof (cases "x0 c = v")
  case True
  then have "c\<lparr>x0 := v\<rparr> = c" by simp
  with True assms show ?thesis by (simp add: set_x0_def consistent_def)
next
  case False
  have "fst (svelte_update ns (c\<lparr>x0 := v\<rparr>, {V_x0})) = spec_state ns v (deltaX c)"
    using update_from_consistent [OF assms, of V_x0 "c\<lparr>x0 := v\<rparr>"]
    by (simp add: val_of_upd_x0)
  with False show ?thesis by (simp add: set_x0_def)
qed

lemma mount_eq: "mount ns c0 = spec_state ns 2 (3 / 2)"
proof -
  have deps: "list_all (\<lambda>st. s_deps st \<noteq> []) (reactive_stmts ns)"
    by (simp add: reactive_stmts_def color_stmts_def)
  show ?thesis
    unfolding mount_def svelte_update_def fold_run_stmt_all [OF deps]
    by (simp add: eager_spec)
qed

text \<open>
  Claim C2. The dirty-driven update refines the reference: assigning
  \<open>deltaX\<close> (slider or preset) or \<open>x0\<close> in a consistent state and running
  Svelte's \<open>$$.update\<close> yields exactly the state whose every derived
  variable is recomputed from the new \<open>(x0, deltaX)\<close>.
\<close>

theorem assignment_refines_spec:
  assumes "consistent ns c"
  shows "set_deltaX ns c v = spec_state ns (x0 c) v \<and> set_x0 ns c v = spec_state ns v (deltaX c)"
  using set_deltaX_eq [OF assms] set_x0_eq [OF assms] by simp

theorem assignment_refines_spec_witness:
  "consistent (\<lambda>r. int_str (js_round r)) (spec_state (\<lambda>r. int_str (js_round r)) 2 (3 / 2))
   \<and> set_deltaX (\<lambda>r. int_str (js_round r)) (spec_state (\<lambda>r. int_str (js_round r)) 2 (3 / 2)) 1
       = spec_state (\<lambda>r. int_str (js_round r)) 2 1
   \<and> set_x0 (\<lambda>r. int_str (js_round r)) (spec_state (\<lambda>r. int_str (js_round r)) 2 (3 / 2)) 2
       = spec_state (\<lambda>r. int_str (js_round r)) 2 (3 / 2)"
proof -
  have h: "consistent (\<lambda>r. int_str (js_round r)) (spec_state (\<lambda>r. int_str (js_round r)) 2 (3 / 2))"
    by (rule consistent_spec_state)
  show ?thesis using h assignment_refines_spec [OF h] by (simp add: spec_state_def Let_def)
qed

text \<open>
  Claim C3. Mounting the component (\<open>new App({target})\<close>) yields the
  reference state at \<open>x0 = 2\<close>, \<open>\<Delta>x = 1.5\<close>, whatever the values the
  uninitialised variables held: every derived variable is set.
\<close>

theorem mount_spec: "mount ns c0 = spec_state ns 2 (3 / 2) \<and> consistent ns (mount ns c0)"
  using mount_eq [of ns c0] consistent_spec_state [of ns 2 "3 / 2"] by simp

text \<open>
  Claim C11. Svelte's dirty-driven flush is equivalent to the explicit
  pipeline the spec asks for (recompute every derived value after every
  mutation): after an assignment to \<open>deltaX\<close> or \<open>x0\<close> in a consistent
  state, running only the statements whose dependencies changed gives the
  state that running all ten statements in order gives.
\<close>

theorem flush_equiv_eager:
  assumes "consistent ns c"
  shows "fst (svelte_update ns (c\<lparr>deltaX := v\<rparr>, {V_deltaX})) = fold s_eval (reactive_stmts ns) (c\<lparr>deltaX := v\<rparr>)
         \<and> fst (svelte_update ns (c\<lparr>x0 := v\<rparr>, {V_x0})) = fold s_eval (reactive_stmts ns) (c\<lparr>x0 := v\<rparr>)"
  using update_lazy_eager [OF assms, of V_deltaX "c\<lparr>deltaX := v\<rparr>"]
    update_lazy_eager [OF assms, of V_x0 "c\<lparr>x0 := v\<rparr>"]
  by (simp add: val_of_upd_deltaX val_of_upd_x0)

theorem flush_equiv_eager_witness:
  "consistent (\<lambda>r. int_str (js_round r)) (spec_state (\<lambda>r. int_str (js_round r)) 2 (3 / 2))
   \<and> fst (svelte_update (\<lambda>r. int_str (js_round r))
          ((spec_state (\<lambda>r. int_str (js_round r)) 2 (3 / 2))\<lparr>deltaX := 1\<rparr>, {V_deltaX}))
     = fold s_eval (reactive_stmts (\<lambda>r. int_str (js_round r))) ((spec_state (\<lambda>r. int_str (js_round r)) 2 (3 / 2))\<lparr>deltaX := 1\<rparr>)"
proof -
  have h: "consistent (\<lambda>r. int_str (js_round r)) (spec_state (\<lambda>r. int_str (js_round r)) 2 (3 / 2))"
    by (rule consistent_spec_state)
  show ?thesis using h flush_equiv_eager [OF h, of 1] by blast
qed

end
