(* ===== verification/Controls.thy ===== *)
theory Controls
  imports Reactive
begin

text \<open>
  The controls of \<open>App.svelte\<close> and the widget as a state machine. The
  slider (template lines 296--303) is an \<open><input type="range">\<close> with
  \<open>min = DX_MIN\<close>, \<open>max = DX_MAX\<close>, \<open>step = DX_STEP\<close> (script lines
  137--139) bound to \<open>deltaX\<close>; the browser hands the binding only values
  that the HTML value sanitisation of a range input allows: clamped to
  \<open>[min, max]\<close> and rounded to the nearest \<open>min + k \<cdot> step\<close> (ties upwards).
  The five preset buttons (lines 311--318) assign their value on a click
  and carry the class \<open>active\<close> when \<open>|deltaX - preset| < 0.005\<close>.

  An event is a slider movement to any position or a click on one of the
  buttons; \<open>reachable\<close> collects the states of the mounted component
  (after its empty \<open>onMount\<close> callback) after any sequence of events. The
  invariant \<open>ui_inv\<close> (consistency with the reference, \<open>x0 = 2\<close>,
  \<open>deltaX\<close> on the slider's grid inside \<open>[0.01, 2]\<close>) holds in all of them,
  by rule induction; conversely every state on the grid is reached by one
  slider move, so the reachable states are exactly the 200 grid states.
\<close>

definition DX_MIN :: js_number where "DX_MIN = 1 / 100"
definition DX_MAX :: js_number where "DX_MAX = 2"
definition DX_STEP :: js_number where "DX_STEP = 1 / 100"

text \<open>\<open>{#each [2.0, 1.0, 0.5, 0.1, 0.01] as preset}\<close>\<close>

definition presets :: "js_number list" where
  "presets = [2, 1, 1 / 2, 1 / 10, 1 / 100]"

text \<open>\<open>class:active={Math.abs(deltaX - preset) < 0.005}\<close>\<close>

definition preset_active :: "js_number \<Rightarrow> js_number \<Rightarrow> bool" where
  "preset_active dx preset \<longleftrightarrow> \<bar>dx - preset\<bar> < 5 / 1000"

text \<open>
  The value a range input with \<open>min\<close>, \<open>max\<close>, \<open>step\<close> reports for the
  thumb at position \<open>v\<close> (HTML value sanitisation: underflow and overflow
  clamp, a step mismatch rounds to the nearest allowed value, the larger on
  a tie, never past \<open>max\<close>).
\<close>

definition range_value :: "js_number \<Rightarrow> js_number \<Rightarrow> js_number \<Rightarrow> js_number \<Rightarrow> js_number" where
  "range_value lo hi st v =
     (let v1 = (if v < lo then lo else if hi < v then hi else v);
          k = \<lfloor>(v1 - lo) / st + 1 / 2\<rfloor>;
          kmax = \<lfloor>(hi - lo) / st\<rfloor>
      in lo + of_int (min k kmax) * st)"

datatype ui_event = Slide js_number | Click js_number

text \<open>
  The handlers: \<open>bind:value={deltaX}\<close> assigns the slider's value,
  \<open>on:click={() => deltaX = preset}\<close> the button's.
\<close>

fun handle :: "num_fmt \<Rightarrow> comp \<Rightarrow> ui_event \<Rightarrow> comp" where
  "handle ns c (Slide v) = set_deltaX ns c (range_value DX_MIN DX_MAX DX_STEP v)"
| "handle ns c (Click p) = set_deltaX ns c p"

text \<open>A click can only come from one of the five buttons.\<close>

fun event_ok :: "ui_event \<Rightarrow> bool" where
  "event_ok (Slide v) = True"
| "event_ok (Click p) = (p \<in> set presets)"

text \<open>
  The \<open>onMount\<close> callback (script lines 144--147): its body holds only a
  comment, so it leaves the state as it is. It runs once, after mounting and
  before the first event.
\<close>

definition on_mount :: "comp \<Rightarrow> comp" where
  "on_mount c = c"

inductive reachable :: "num_fmt \<Rightarrow> comp \<Rightarrow> bool" where
  mounted: "reachable ns (on_mount (mount ns c0))"
| event: "reachable ns c \<Longrightarrow> event_ok e \<Longrightarrow> reachable ns (handle ns c e)"

text \<open>The step size stays on the slider's grid \<open>{k / 100}\<close> inside \<open>[DX_MIN, DX_MAX]\<close>.\<close>

definition on_grid :: "js_number \<Rightarrow> bool" where
  "on_grid dx \<longleftrightarrow> 100 * dx \<in> \<int> \<and> DX_MIN \<le> dx \<and> dx \<le> DX_MAX"

definition ui_inv :: "num_fmt \<Rightarrow> comp \<Rightarrow> bool" where
  "ui_inv ns c \<longleftrightarrow> consistent ns c \<and> x0 c = 2 \<and> on_grid (deltaX c)"

lemmas controls_defs [sek_defs] = DX_MIN_def DX_MAX_def DX_STEP_def presets_def


lemma reachable_mount: "reachable ns (mount ns c0)"
  using reachable.mounted [of ns c0] by (simp add: on_mount_def)

subsection \<open>The range input\<close>

lemma range_value_aligned:
  assumes "lo \<le> hi" and "0 < st"
  shows "\<exists>k. 0 \<le> k \<and> k \<le> \<lfloor>(hi - lo) / st\<rfloor> \<and> range_value lo hi st v = lo + of_int k * st"
proof -
  define v1 where "v1 = (if v < lo then lo else if hi < v then hi else v)"
  have "lo \<le> v1" using assms(1) by (simp add: v1_def)
  then have "0 \<le> (v1 - lo) / st + 1 / 2" using assms(2) by simp
  then have k0: "0 \<le> \<lfloor>(v1 - lo) / st + 1 / 2\<rfloor>" by simp
  have "0 \<le> (hi - lo) / st" using assms by simp
  then have km: "0 \<le> \<lfloor>(hi - lo) / st\<rfloor>" by simp
  show ?thesis
    by (rule exI [of _ "min \<lfloor>(v1 - lo) / st + 1 / 2\<rfloor> \<lfloor>(hi - lo) / st\<rfloor>"])
       (use k0 km in \<open>simp add: range_value_def v1_def Let_def\<close>)
qed

lemma range_value_bounds:
  assumes "lo \<le> hi" and "0 < st"
  shows "lo \<le> range_value lo hi st v \<and> range_value lo hi st v \<le> hi"
proof -
  obtain k where k: "0 \<le> k" "k \<le> \<lfloor>(hi - lo) / st\<rfloor>" and r: "range_value lo hi st v = lo + of_int k * st"
    using range_value_aligned [OF assms] by blast
  have "of_int k \<le> (hi - lo) / st" using k(2) by linarith
  then have "of_int k * st \<le> hi - lo" using assms(2) by (simp add: le_divide_eq)
  moreover have "0 \<le> of_int k * st" using k(1) assms(2) by simp
  ultimately show ?thesis using r by simp
qed

text \<open>A value on the grid inside \<open>[lo, hi]\<close> is reported unchanged.\<close>

lemma range_value_on_grid:
  assumes "0 < st" and "0 \<le> k" and "lo + of_int k * st \<le> hi"
  shows "range_value lo hi st (lo + of_int k * st) = lo + of_int k * st"
proof -
  have lo: "lo \<le> lo + of_int k * st" using assms(1,2) by simp
  have "(lo + of_int k * st - lo) / st + 1 / 2 = of_int k + 1 / 2" using assms(1) by simp
  then have fl: "\<lfloor>(lo + of_int k * st - lo) / st + 1 / 2\<rfloor> = k" by linarith
  have "of_int k * st \<le> hi - lo" using assms(3) by simp
  then have "of_int k \<le> (hi - lo) / st" using assms(1) by (simp add: le_divide_eq)
  then have km: "k \<le> \<lfloor>(hi - lo) / st\<rfloor>" by linarith
  show ?thesis using lo assms(3) fl km by (simp add: range_value_def Let_def min_def)
qed

lemma slider_value_grid: "on_grid (range_value DX_MIN DX_MAX DX_STEP v)"
proof -
  have h: "DX_MIN \<le> DX_MAX" "0 < DX_STEP" by (simp_all add: controls_defs)
  obtain k where r: "range_value DX_MIN DX_MAX DX_STEP v = DX_MIN + of_int k * DX_STEP"
    using range_value_aligned [OF h] by blast
  have "100 * (DX_MIN + of_int k * DX_STEP) = of_int (k + 1)" by (simp add: controls_defs)
  then have "100 * range_value DX_MIN DX_MAX DX_STEP v \<in> \<int>" using r by (metis Ints_of_int)
  with range_value_bounds [OF h, of v] show ?thesis by (simp add: on_grid_def)
qed

subsection \<open>Presets\<close>

lemma presets_grid: "p \<in> set presets \<Longrightarrow> on_grid p"
proof -
  have "list_all on_grid presets" by (simp add: presets_def on_grid_def controls_defs)
  then show "p \<in> set presets \<Longrightarrow> on_grid p" by (simp add: list_all_iff)
qed

text \<open>On the grid, being within \<open>0.005\<close> of a grid value means being equal to it.\<close>

lemma preset_active_grid:
  assumes "100 * dx \<in> \<int>" and "100 * p \<in> \<int>"
  shows "preset_active dx p \<longleftrightarrow> dx = p"
proof -
  obtain a b :: int where a: "100 * dx = of_int a" and b: "100 * p = of_int b"
    using assms by (auto elim!: Ints_cases)
  have d: "dx - p = of_int (a - b) / 100" using a b by (simp add: field_simps)
  have e: "\<bar>dx - p\<bar> = of_int \<bar>a - b\<bar> / 100" unfolding d by (simp add: abs_divide)
  have "preset_active dx p \<longleftrightarrow> of_int \<bar>a - b\<bar> < (1 / 2 :: real)"
    unfolding preset_active_def e by (simp add: mult.commute)
  also have "\<dots> \<longleftrightarrow> \<bar>a - b\<bar> < 1" by linarith
  also have "\<dots> \<longleftrightarrow> dx = p" using d by auto
  finally show ?thesis .
qed

subsection \<open>The invariant of the widget\<close>

lemma ui_inv_mount: "ui_inv ns (mount ns c0)"
proof -
  have "100 * (3 / 2 :: real) = of_int 150" by simp
  then have "100 * (3 / 2 :: real) \<in> \<int>" by (metis Ints_of_int)
  then show ?thesis
    by (simp add: ui_inv_def mount_eq consistent_spec_state on_grid_def controls_defs)
qed

lemma ui_inv_set_deltaX:
  assumes "ui_inv ns c" and "on_grid v"
  shows "ui_inv ns (set_deltaX ns c v)"
  using assms by (simp add: ui_inv_def set_deltaX_eq consistent_spec_state)

lemma ui_inv_handle:
  assumes "ui_inv ns c" and "event_ok e"
  shows "ui_inv ns (handle ns c e)"
proof (cases e)
  case (Slide v)
  then show ?thesis using assms(1) slider_value_grid by (simp add: ui_inv_set_deltaX)
next
  case (Click p)
  then show ?thesis using assms presets_grid by (simp add: ui_inv_set_deltaX)
qed

lemma reachable_ui_inv: "reachable ns c \<Longrightarrow> ui_inv ns c"
proof (induction rule: reachable.induct)
  case (mounted ns c0)
  show ?case unfolding on_mount_def by (rule ui_inv_mount)
next
  case (event ns c e)
  from event.IH event.hyps(2) show ?case by (rule ui_inv_handle)
qed


lemma handle_eq:
  assumes "consistent ns c"
  shows "handle ns c e = spec_state ns (x0 c)
           (case e of Slide v \<Rightarrow> range_value DX_MIN DX_MAX DX_STEP v | Click p \<Rightarrow> p)"
  using assms by (cases e) (simp_all add: set_deltaX_eq)

lemma reachable_spec: "reachable ns c \<Longrightarrow> c = spec_state ns 2 (deltaX c) \<and> on_grid (deltaX c)"
proof -
  assume "reachable ns c"
  then have "consistent ns c" "x0 c = 2" "on_grid (deltaX c)"
    using reachable_ui_inv [of ns c] by (simp_all add: ui_inv_def)
  then show ?thesis unfolding consistent_def by metis
qed

lemma preset_filter:
  assumes "on_grid dx"
  shows "filter (preset_active dx) presets = (if dx \<in> set presets then [dx] else [])"
proof -
  have "filter (preset_active dx) presets = filter (\<lambda>q. dx = q) presets"
    using assms presets_grid by (intro filter_cong) (auto simp: on_grid_def preset_active_grid)
  also have "\<dots> = (if dx \<in> set presets then [dx] else [])"
    by (rule filter_eq_distinct) (simp add: presets_def)
  finally show ?thesis .
qed

text \<open>The fields of a reachable state, read off the reference.\<close>

lemma reachable_fields:
  assumes "reachable ns c"
  shows "0 < deltaX c \<and> deltaX c \<le> 2 \<and> 100 * deltaX c \<in> \<int> \<and> x0 c = 2
         \<and> slope_tan c = 2 \<and> slope_sek c = 2 + deltaX c
         \<and> errorRatio c = deltaX c / 3 \<and> errorColor c = interpolateColor (deltaX c / 3)
         \<and> px0 c = marker 2 \<and> px1 c = marker (2 + deltaX c)
         \<and> sekantePoints c = makeLine ns xs (line_through 2 (2 + deltaX c))
         \<and> tangentePoints c = makeLine ns xs (line_through 2 2)
         \<and> slopeDisplay c = toFixed ns 4 (2 + deltaX c) \<and> errorDisplay c = toFixed ns 4 (deltaX c)"
proof -
  define dx where "dx = deltaX c"
  have c: "c = spec_state ns 2 dx" and g: "on_grid dx"
    using reachable_spec [OF assms] by (simp_all add: dx_def)
  have d: "0 < dx" "dx \<le> 2" "100 * dx \<in> \<int>" using g by (simp_all add: on_grid_def controls_defs)
  have s: "sec_slope 2 dx = 2 + dx" using d by (simp add: sec_slope_eq df_fn_def)
  have r: "error_ratio (2 + dx) 2 = dx / 3" using d by (simp add: error_ratio_def)
  have "x0 c = 2 \<and> slope_tan c = 2 \<and> slope_sek c = 2 + dx \<and> errorRatio c = dx / 3
        \<and> errorColor c = interpolateColor (dx / 3) \<and> px0 c = marker 2 \<and> px1 c = marker (2 + dx)
        \<and> sekantePoints c = makeLine ns xs (line_through 2 (2 + dx))
        \<and> tangentePoints c = makeLine ns xs (line_through 2 2)
        \<and> slopeDisplay c = toFixed ns 4 (2 + dx) \<and> errorDisplay c = toFixed ns 4 dx"
    using c d(1) by (simp add: spec_state_def Let_def s r df_fn_def)
  then show ?thesis using d by (simp add: dx_def)
qed

text \<open>Every state of the reference on the slider's grid is one slider move away from mounting.\<close>

lemma grid_reachable:
  assumes "1 \<le> k" and "k \<le> 200"
  shows "reachable ns (spec_state ns 2 (of_int k / 100))"
proof -
  let ?c = "mount ns (spec_state ns 2 (3 / 2))"
  have r: "reachable ns ?c" by (rule reachable_mount)
  have cons: "consistent ns ?c" and x: "x0 ?c = 2" using ui_inv_mount [of ns] by (simp_all add: ui_inv_def)
  have k: "real_of_int k \<le> 200" "0 \<le> k - 1" using assms by simp_all
  have g: "DX_MIN + of_int (k - 1) * DX_STEP = of_int k / 100" by (simp add: controls_defs field_simps)
  have "range_value DX_MIN DX_MAX DX_STEP (DX_MIN + of_int (k - 1) * DX_STEP) = DX_MIN + of_int (k - 1) * DX_STEP"
  proof (rule range_value_on_grid)
    show "0 < DX_STEP" by (simp add: controls_defs)
    show "0 \<le> k - 1" by (rule k(2))
    show "DX_MIN + of_int (k - 1) * DX_STEP \<le> DX_MAX" unfolding g using k(1) by (simp add: controls_defs)
  qed
  then have v: "range_value DX_MIN DX_MAX DX_STEP (of_int k / 100) = of_int k / 100" unfolding g .
  have "handle ns ?c (Slide (of_int k / 100))
        = spec_state ns (x0 ?c) (range_value DX_MIN DX_MAX DX_STEP (of_int k / 100))"
    using handle_eq [OF cons, of "Slide (of_int k / 100)"] by simp
  then have "handle ns ?c (Slide (of_int k / 100)) = spec_state ns 2 (of_int k / 100)"
    unfolding v x .
  moreover have "reachable ns (handle ns ?c (Slide (of_int k / 100)))" using r by (rule reachable.event) simp
  ultimately show ?thesis by simp
qed

text \<open>
  Claim C1. Every state the widget reaches from mounting through slider
  movements and button clicks is the reference state for \<open>x0 = 2\<close> and
  its own \<open>deltaX\<close>, and \<open>deltaX\<close> is a multiple of \<open>0.01\<close> in
  \<open>[DX_MIN, DX_MAX]\<close>.
\<close>

theorem reachable_consistent:
  assumes "reachable ns c"
  shows "c = spec_state ns 2 (deltaX c) \<and> 100 * deltaX c \<in> \<int> \<and> DX_MIN \<le> deltaX c \<and> deltaX c \<le> DX_MAX"
  using reachable_spec [OF assms] by (simp add: on_grid_def)

theorem reachable_consistent_witness:
  "reachable (\<lambda>r. int_str (js_round r))
     (handle (\<lambda>r. int_str (js_round r)) (mount (\<lambda>r. int_str (js_round r)) (spec_state (\<lambda>r. int_str (js_round r)) 0 1)) (Click (1 / 2)))
   \<and> handle (\<lambda>r. int_str (js_round r)) (mount (\<lambda>r. int_str (js_round r)) (spec_state (\<lambda>r. int_str (js_round r)) 0 1)) (Click (1 / 2))
     = spec_state (\<lambda>r. int_str (js_round r)) 2 (1 / 2)"
proof -
  have r: "reachable (\<lambda>r. int_str (js_round r))
     (handle (\<lambda>r. int_str (js_round r)) (mount (\<lambda>r. int_str (js_round r)) (spec_state (\<lambda>r. int_str (js_round r)) 0 1)) (Click (1 / 2)))"
    by (rule reachable.event [OF reachable_mount]) (simp add: presets_def)
  show ?thesis
    using r reachable_consistent [OF r]
    by (simp add: set_deltaX_eq mount_eq consistent_spec_state)
qed

text \<open>
  Claim C4. The reachable states are exactly the 200 states of the slider's
  grid: every state the widget reaches is the reference state for
  \<open>x0 = 2\<close> and some \<open>deltaX = k / 100\<close> with \<open>1 \<le> k \<le> 200\<close>, and each
  of them can be reached (by one slider move from the mounted widget).
  A coarser slider step, a wrong minimum or a sanitisation that misses
  grid values loses states; a wrong handler adds states off the grid.
\<close>

theorem reachable_iff_grid:
  "reachable ns c \<longleftrightarrow> (\<exists>k::int. 1 \<le> k \<and> k \<le> 200 \<and> c = spec_state ns 2 (of_int k / 100))"
proof
  assume "reachable ns c"
  then have c: "c = spec_state ns 2 (deltaX c)" and g: "on_grid (deltaX c)"
    using reachable_spec by blast+
  obtain k where k: "100 * deltaX c = of_int k" using g by (auto simp: on_grid_def elim!: Ints_cases)
  have d: "deltaX c = of_int k / 100" using k by simp
  have "(1::real) \<le> of_int k" "of_int k \<le> (200::real)" using g k by (simp_all add: on_grid_def controls_defs)
  then have "1 \<le> k" "k \<le> 200" by simp_all
  then show "\<exists>k::int. 1 \<le> k \<and> k \<le> 200 \<and> c = spec_state ns 2 (of_int k / 100)"
    using c [unfolded d] by blast
next
  assume "\<exists>k::int. 1 \<le> k \<and> k \<le> 200 \<and> c = spec_state ns 2 (of_int k / 100)"
  then obtain k :: int where "1 \<le> k" "k \<le> 200" "c = spec_state ns 2 (of_int k / 100)" by blast
  then show "reachable ns c" using grid_reachable by blast
qed

theorem reachable_iff_grid_witness:
  "reachable (\<lambda>r. int_str (js_round r)) (spec_state (\<lambda>r. int_str (js_round r)) 2 (37 / 100))
   \<and> \<not> reachable (\<lambda>r. int_str (js_round r)) (spec_state (\<lambda>r. int_str (js_round r)) 2 (1 / 200))"
proof -
  have a: "reachable (\<lambda>r. int_str (js_round r)) (spec_state (\<lambda>r. int_str (js_round r)) 2 (37 / 100))"
    unfolding reachable_iff_grid by (rule exI [of _ 37]) simp
  have b: "\<not> reachable (\<lambda>r. int_str (js_round r)) (spec_state (\<lambda>r. int_str (js_round r)) 2 (1 / 200))"
    unfolding reachable_iff_grid
  proof
    assume "\<exists>k::int. 1 \<le> k \<and> k \<le> 200
      \<and> spec_state (\<lambda>r. int_str (js_round r)) 2 (1 / 200) = spec_state (\<lambda>r. int_str (js_round r)) 2 (of_int k / 100)"
    then obtain k :: int
      where "spec_state (\<lambda>r. int_str (js_round r)) 2 (1 / 200) = spec_state (\<lambda>r. int_str (js_round r)) 2 (of_int k / 100)"
      by blast
    then have "deltaX (spec_state (\<lambda>r. int_str (js_round r)) 2 (1 / 200))
             = deltaX (spec_state (\<lambda>r. int_str (js_round r)) 2 (of_int k / 100))" by (rule arg_cong)
    then have "of_int (2 * k) = (1::real)" by simp
    then have "2 * k = 1" by (simp only: of_int_eq_1_iff)
    then show False by presburger
  qed
  show ?thesis by (rule conjI [OF a b])
qed

text \<open>
  Claim C9. The preset buttons: in every reachable state at most one button
  carries the class \<open>active\<close>, and after a click on a button exactly that
  button does (the tolerance \<open>0.005\<close> is half the slider's step).
\<close>

theorem preset_buttons:
  assumes "reachable ns c" and "p \<in> set presets"
  shows "filter (preset_active (deltaX (handle ns c (Click p)))) presets = [p]
         \<and> length (filter (preset_active (deltaX c)) presets) \<le> 1"
proof -
  have c: "c = spec_state ns 2 (deltaX c)" and g: "on_grid (deltaX c)"
    using reachable_spec [OF assms(1)] by simp_all
  have "consistent ns c" using c consistent_spec_state by metis
  then have "deltaX (handle ns c (Click p)) = p" by (simp add: set_deltaX_eq)
  then show ?thesis using assms(2) presets_grid [OF assms(2)] preset_filter [OF g]
    by (simp add: preset_filter)
qed

theorem preset_buttons_witness:
  "reachable (\<lambda>r. int_str (js_round r)) (mount (\<lambda>r. int_str (js_round r)) (spec_state (\<lambda>r. int_str (js_round r)) 0 1))
   \<and> (1 / 10 :: real) \<in> set presets
   \<and> filter (preset_active (deltaX (handle (\<lambda>r. int_str (js_round r))
        (mount (\<lambda>r. int_str (js_round r)) (spec_state (\<lambda>r. int_str (js_round r)) 0 1)) (Click (1 / 10))))) presets = [1 / 10]
   \<and> preset_active (499 / 1000) (1 / 2) \<and> \<not> preset_active (51 / 100) (1 / 2)"
proof -
  have r: "reachable (\<lambda>r. int_str (js_round r)) (mount (\<lambda>r. int_str (js_round r)) (spec_state (\<lambda>r. int_str (js_round r)) 0 1))"
    by (rule reachable_mount)
  have p: "(1 / 10 :: real) \<in> set presets" by (simp add: presets_def)
  show ?thesis using r p preset_buttons [OF r p] by (simp add: preset_active_def)
qed

end
