(* ===== verification/Ticks.thy ===== *)
theory Ticks
  imports Viewport
begin

text \<open>
  The axis tick generator of \<open>App.svelte\<close> (script lines 106--112):
  \<^verbatim>\<open>for (let v = min; v <= max + 1e-9; v += step) result.push(+v.toFixed(6));\<close>
  The loop has no bound of its own: with \<open>step \<le> 0\<close> it never ends. It is
  therefore a \<^theory_text>\<open>partial_function (option)\<close>, \<open>None\<close> standing for the
  loop that does not return. The theory gives the
  result in closed form for a positive step (on exact reals, where
  \<open>v += step\<close> accumulates no error), evaluates the two axes of the widget
  (whose steps \<open>0.5\<close> and \<open>1\<close> and values are exact in binary floating
  point, so the evaluation holds for doubles too) and proves the loop's
  error path: with \<open>step \<le> 0\<close> it never returns.
\<close>

definition tick_eps :: js_number where
  "tick_eps = 1 / 10 ^ 9"

partial_function (option) ticks_loop ::
  "num_fmt \<Rightarrow> js_number \<Rightarrow> js_number \<Rightarrow> js_number \<Rightarrow> js_number list \<Rightarrow> js_number list option"
where
  "ticks_loop ns vmax step v result =
     (if v \<le> vmax + tick_eps
      then ticks_loop ns vmax step (v + step) (result @ [js_to_number (toFixed ns 6 v)])
      else Some result)"

definition ticks :: "num_fmt \<Rightarrow> js_number \<Rightarrow> js_number \<Rightarrow> js_number \<Rightarrow> js_number list option" where
  "ticks ns vmin vmax step = ticks_loop ns vmax step vmin []"

text \<open>\<open>const xTicks = ticks(xMin, xMax, 0.5); const yTicks = ticks(yMin, yMax, 1);\<close>\<close>

definition xTicks :: "num_fmt \<Rightarrow> js_number list option" where
  "xTicks ns = ticks ns xMin xMax (1 / 2)"

definition yTicks :: "num_fmt \<Rightarrow> js_number list option" where
  "yTicks ns = ticks ns yMin yMax 1"

text \<open>The source's \<open>min\<close> and \<open>max\<close> are \<open>vmin\<close> and \<open>vmax\<close> here (\<open>min\<close>, \<open>max\<close> are HOL constants).\<close>

text \<open>The number of iterations from \<open>v\<close> on, for the bound \<open>M = max + 1e-9\<close>.\<close>

definition tick_count :: "js_number \<Rightarrow> js_number \<Rightarrow> js_number \<Rightarrow> nat" where
  "tick_count step M v = (if v \<le> M then nat \<lfloor>(M - v) / step\<rfloor> + 1 else 0)"

lemma tick_count_step:
  assumes "0 < step" and "v \<le> M"
  shows "tick_count step M v = Suc (tick_count step M (v + step))"
proof (cases "v + step \<le> M")
  case True
  let ?q = "(M - v) / step"
  have shift: "(M - (v + step)) / step = ?q - 1"
    using assms(1) by (simp add: field_simps)
  have "1 \<le> ?q" using True assms(1) by (simp add: le_divide_eq)
  then have "1 \<le> \<lfloor>?q\<rfloor>" by simp
  then have "nat \<lfloor>?q\<rfloor> = Suc (nat (\<lfloor>?q\<rfloor> - 1))" by linarith
  then show ?thesis
    using True assms(2) shift by (simp add: tick_count_def)
next
  case False
  then have "(M - v) / step < 1" using assms(1) by (simp add: divide_less_eq)
  moreover have "0 \<le> (M - v) / step" using assms by simp
  ultimately have "\<lfloor>(M - v) / step\<rfloor> = 0" by linarith
  then show ?thesis using False assms by (simp add: tick_count_def)
qed

text \<open>The loop in closed form: it pushes the rounded \<open>v + k \<cdot> step\<close> for each of its iterations.\<close>

lemma ticks_loop_closed:
  assumes "0 < step"
  shows "ticks_loop ns vmax step v acc
           = Some (acc @ map (\<lambda>k. js_to_number (toFixed ns 6 (v + real k * step)))
                             [0..<tick_count step (vmax + tick_eps) v])"
proof (induction "tick_count step (vmax + tick_eps) v" arbitrary: v acc)
  case 0
  then have "\<not> v \<le> vmax + tick_eps" by (simp add: tick_count_def split: if_splits)
  with "0" show ?case by (simp add: ticks_loop.simps [of ns vmax step v acc])
next
  case (Suc n)
  then have le: "v \<le> vmax + tick_eps" by (simp add: tick_count_def split: if_splits)
  then have n: "n = tick_count step (vmax + tick_eps) (v + step)"
    using Suc.hyps(2) tick_count_step [OF assms le] by simp
  have map_shift: "map (\<lambda>k. js_to_number (toFixed ns 6 (v + real k * step))) [0..<Suc n]
      = js_to_number (toFixed ns 6 v) # map (\<lambda>k. js_to_number (toFixed ns 6 (v + step + real k * step))) [0..<n]"
    by (simp add: upt_conv_Cons map_Suc_upt [symmetric] del: upt_Suc) (simp add: algebra_simps)
  have c: "tick_count step (vmax + tick_eps) v = Suc n" using Suc.hyps(2) by simp
  show ?case
    unfolding c using le Suc.hyps(1) [OF n] map_shift n [symmetric]
    by (simp add: ticks_loop.simps [of ns vmax step v acc] del: upt_Suc)
qed

text \<open>With \<open>step \<le> 0\<close> the loop variable never passes the bound: the loop runs forever.\<close>

lemma ticks_loop_returns_past_bound:
  assumes ret: "ticks_loop ns vmax step v acc = Some r"
  shows "step \<le> 0 \<longrightarrow> vmax + tick_eps < v"
proof (rule ticks_loop.raw_induct [where P = "\<lambda>ns vmax step v acc r. step \<le> 0 \<longrightarrow> vmax + tick_eps < v", OF _ ret])
  fix loop :: "num_fmt \<Rightarrow> js_number \<Rightarrow> js_number \<Rightarrow> js_number \<Rightarrow> js_number list \<Rightarrow> js_number list option"
    and ns vmax step v acc r
  assume IH: "\<And>ns vmax step v acc r. loop ns vmax step v acc = Some r \<Longrightarrow> step \<le> 0 \<longrightarrow> vmax + tick_eps < v"
    and eq: "(if v \<le> vmax + tick_eps
              then loop ns vmax step (v + step) (acc @ [js_to_number (toFixed ns 6 v)])
              else Some acc) = Some r"
  show "step \<le> 0 \<longrightarrow> vmax + tick_eps < v"
  proof
    assume st: "step \<le> 0"
    show "vmax + tick_eps < v"
    proof (rule ccontr)
      assume "\<not> vmax + tick_eps < v"
      then have le: "v \<le> vmax + tick_eps" by simp
      with eq have "loop ns vmax step (v + step) (acc @ [js_to_number (toFixed ns 6 v)]) = Some r"
        by simp
      then have "vmax + tick_eps < v + step" using IH st by blast
      with st le show False by simp
    qed
  qed
qed

text \<open>With \<open>step \<le> 0\<close> the loop variable never passes the bound: the loop runs forever.\<close>

lemma ticks_loop_diverges:
  assumes "step \<le> 0" and "v \<le> vmax + tick_eps"
  shows "ticks_loop ns vmax step v acc = None"
  using assms ticks_loop_returns_past_bound [of ns vmax step v acc] by fastforce

lemma tick_values_bounded:
  assumes "0 < step" and "vmin \<le> v" and "v \<le> vmax + tick_eps"
    and "\<bar>vmin\<bar> < 10 ^ 20" and "\<bar>vmax\<bar> < 10 ^ 20"
  shows "\<bar>v\<bar> < 10 ^ 21"
  using assms by (simp add: tick_eps_def abs_less_iff)

lemma tick_count_last:
  assumes "0 < step" and "k < tick_count step M v"
  shows "v + real k * step \<le> M"
proof -
  from assms have v: "v \<le> M" and "k \<le> nat \<lfloor>(M - v) / step\<rfloor>"
    by (simp_all add: tick_count_def split: if_splits)
  have q0: "0 \<le> (M - v) / step" using v assms(1) by simp
  have "real k \<le> real (nat \<lfloor>(M - v) / step\<rfloor>)" using \<open>k \<le> nat \<lfloor>(M - v) / step\<rfloor>\<close> by simp
  also have "\<dots> = of_int \<lfloor>(M - v) / step\<rfloor>" using q0 by simp
  also have "\<dots> \<le> (M - v) / step" by simp
  finally have "real k \<le> (M - v) / step" .
  then have "real k * step \<le> M - v" using assms(1) by (simp add: le_divide_eq)
  then show ?thesis by simp
qed

lemma ticks_rounded:
  assumes "0 < step" and "\<bar>vmin\<bar> < 10 ^ 20" and "\<bar>vmax\<bar> < 10 ^ 20"
  shows "ticks ns vmin vmax step
           = Some (map (\<lambda>k. fixed_round 6 (vmin + real k * step))
                       [0..<tick_count step (vmax + tick_eps) vmin])"
proof -
  have "\<And>k. k < tick_count step (vmax + tick_eps) vmin \<Longrightarrow>
          js_to_number (toFixed ns 6 (vmin + real k * step)) = fixed_round 6 (vmin + real k * step)"
  proof -
    fix k assume k: "k < tick_count step (vmax + tick_eps) vmin"
    have "vmin + real k * step \<le> vmax + tick_eps" by (rule tick_count_last [OF assms(1) k])
    moreover have "vmin \<le> vmin + real k * step" using assms(1) by simp
    ultimately have "\<bar>vmin + real k * step\<bar> < 10 ^ 21"
      using tick_values_bounded [OF assms(1) _ _ assms(2,3)] by blast
    then show "js_to_number (toFixed ns 6 (vmin + real k * step)) = fixed_round 6 (vmin + real k * step)"
      by (rule toFixed_read_back)
  qed
  then show ?thesis
    using assms(1) by (simp add: ticks_def ticks_loop_closed)
qed

lemma xTicks_val: "xTicks ns = Some [0, 1/2, 1, 3/2, 2, 5/2, 3, 7/2, 4]"
proof -
  have cx: "tick_count (1/2) (4 + tick_eps) 0 = 9" by (simp add: tick_count_def tick_eps_def)
  show ?thesis
    unfolding xTicks_def by (simp add: ticks_rounded cx viewport_defs upt_rec fixed_round_def)
qed

lemma yTicks_val: "yTicks ns = Some [0, 1, 2, 3, 4, 5, 6, 7, 8, 9]"
proof -
  have cy: "tick_count 1 (9 + tick_eps) 0 = 10" by (simp add: tick_count_def tick_eps_def)
  show ?thesis
    unfolding yTicks_def by (simp add: ticks_rounded cy viewport_defs upt_rec fixed_round_def)
qed


text \<open>
  Claim C23. The error path of the tick generator: it checks neither its
  step nor its range, so with \<open>step \<le> 0\<close> over a non-empty range the loop
  never returns (the value \<open>None\<close>) and the page would hang. This holds on
  IEEE doubles as well, where \<open>v += step\<close> with \<open>step \<le> 0\<close> never increases
  \<open>v\<close>. The widget's own two calls, with steps \<open>0.5\<close> and \<open>1\<close>, return.
\<close>

theorem ticks_nonpositive_step:
  assumes "step \<le> 0" and "vmin \<le> vmax + tick_eps"
  shows "ticks ns vmin vmax step = None \<and> xTicks ns \<noteq> None \<and> yTicks ns \<noteq> None"
  using assms xTicks_val yTicks_val by (simp add: ticks_def ticks_loop_diverges)

theorem ticks_nonpositive_step_witness:
  "(0 :: real) \<le> 0 \<and> (0 :: real) \<le> 4 + tick_eps \<and> ticks (\<lambda>r. int_str (js_round r)) 0 4 0 = None"
proof -
  have h: "(0 :: real) \<le> 0" "(0 :: real) \<le> 4 + tick_eps" by (simp_all add: tick_eps_def)
  show ?thesis using h ticks_nonpositive_step [OF h, of "\<lambda>r. int_str (js_round r)"] by simp
qed

end
