(* ===== verification/Render.thy ===== *)
theory Render
  imports Controls Ticks
begin

text \<open>
  The template of \<open>App.svelte\<close> (lines 162--347) as a function from the
  component state to a DOM tree. An element is its tag, its attributes, the
  event handlers Svelte attaches to it and its children; a text node is its
  text. An attribute holds the value the template computes: a number (set
  by Svelte through \<open>attr\<close>, printed by the browser with
  \<open>Number::toString\<close>), a string, or the flag of a \<open>class:name\<close>
  directive. Template text keeps the source's words; runs of white space are
  one space and the white space at the start and the end of an element's
  content is dropped, as Svelte 3 does. Non-ASCII characters are written as
  their UTF-8 bytes (\<open>u_Delta\<close> for \<open>\<Delta>\<close> and so on).

  \<open>render\<close> is the whole page of the mounted component; it is defined
  only when the two tick loops of the script return, since the script runs
  before the template is created.
\<close>

subsection \<open>Colours and characters\<close>

definition COLOR_FUNC :: string where "COLOR_FUNC = ''#005A94''"
definition COLOR_SEK :: string where "COLOR_SEK = ''#E60000''"
definition COLOR_TAN :: string where "COLOR_TAN = ''#27ae60''"
definition COLOR_POINT :: string where "COLOR_POINT = ''#e87846''"

definition u_Delta :: string where "u_Delta = [CHR 0xCE, CHR 0x94]"
definition u_arrow :: string where "u_arrow = [CHR 0xE2, CHR 0x86, CHR 0x92]"
definition u_prime :: string where "u_prime = [CHR 0xE2, CHR 0x80, CHR 0xB2]"
definition u_minus :: string where "u_minus = [CHR 0xE2, CHR 0x88, CHR 0x92]"
definition u_sup2 :: string where "u_sup2 = [CHR 0xC2, CHR 0xB2]"
definition u_sub1 :: string where "u_sub1 = [CHR 0xE2, CHR 0x82, CHR 0x81]"
definition u_sub2 :: string where "u_sub2 = [CHR 0xE2, CHR 0x82, CHR 0x82]"
definition u_nbsp :: string where "u_nbsp = [CHR 0xC2, CHR 0xA0]"
definition u_auml :: string where "u_auml = [CHR 0xC3, CHR 0xA4]"

subsection \<open>The DOM tree\<close>

datatype attr = AS string | AN js_number | AB bool

text \<open>\<open>on:click={() => deltaX = preset}\<close> and \<open>bind:value={deltaX}\<close>.\<close>

datatype handler = OnClick js_number | BindValue

datatype node = Elem string "(string \<times> attr) list" "handler list" "node list" | Txt string

definition line_el :: "js_number \<Rightarrow> js_number \<Rightarrow> js_number \<Rightarrow> js_number \<Rightarrow> string \<Rightarrow> node" where
  "line_el x1 y1 x2 y2 cls =
     Elem ''line'' [(''x1'', AN x1), (''y1'', AN y1), (''x2'', AN x2), (''y2'', AN y2), (''class'', AS cls)] [] []"

subsection \<open>The header (lines 165--171)\<close>

definition header_view :: node where
  "header_view =
     Elem ''header'' [] []
       [Elem ''h1'' [] [] [Txt (''Applet Sekante '' @ u_arrow @ '' Tangente'')],
        Elem ''p'' [] []
          [Txt (''Verschiebe Sie den Schieberegler und beobachten Sie, wie sich die Sekante der Tangente ann''
                @ u_auml @ ''hert, wenn'' @ u_nbsp @ u_Delta @ ''x'' @ u_nbsp @ u_arrow @ u_nbsp @ ''0.'')]]"

subsection \<open>The chart (lines 179--287)\<close>

text \<open>The background grid, one vertical line per x tick and one horizontal line per y tick.\<close>

definition grid_x :: "js_number list \<Rightarrow> node list" where
  "grid_x xt = map (\<lambda>tx. line_el (toSvgX tx) (pad_top PAD) (toSvgX tx) (pad_top PAD + plotH) ''grid-line'') xt"

definition grid_y :: "js_number list \<Rightarrow> node list" where
  "grid_y yt = map (\<lambda>ty. line_el (pad_left PAD) (toSvgY ty) (pad_left PAD + plotW) (toSvgY ty) ''grid-line'') yt"

definition axes :: "node list" where
  "axes = [line_el (pad_left PAD) (toSvgY 0) (pad_left PAD + plotW) (toSvgY 0) ''axis'',
           line_el (toSvgX 0) (pad_top PAD) (toSvgX 0) (pad_top PAD + plotH) ''axis'']"

text \<open>\<open>{#each xTicks as tx}{#if tx > 0}<text \<dots>>{tx}</text>{/if}{/each}\<close> and the same for y.\<close>

definition labels_x :: "num_fmt \<Rightarrow> js_number list \<Rightarrow> node list" where
  "labels_x ns xt = concat (map (\<lambda>tx. if 0 < tx then
       [Elem ''text'' [(''x'', AN (toSvgX tx)), (''y'', AN (pad_top PAD + plotH + 18)),
                       (''class'', AS ''tick-label''), (''text-anchor'', AS ''middle'')] [] [Txt (ns tx)]]
     else []) xt)"

definition labels_y :: "num_fmt \<Rightarrow> js_number list \<Rightarrow> node list" where
  "labels_y ns yt = concat (map (\<lambda>ty. if 0 < ty then
       [Elem ''text'' [(''x'', AN (pad_left PAD - 8)), (''y'', AN (toSvgY ty)), (''class'', AS ''tick-label''),
                       (''text-anchor'', AS ''end''), (''dominant-baseline'', AS ''middle'')] [] [Txt (ns ty)]]
     else []) yt)"

definition axis_titles :: "num_fmt \<Rightarrow> node list" where
  "axis_titles ns =
     [Elem ''text'' [(''x'', AN (pad_left PAD + plotW / 2)), (''y'', AN (VH - 4)), (''class'', AS ''axis-title''),
                     (''text-anchor'', AS ''middle'')] [] [Txt ''x''],
      Elem ''text'' [(''x'', AN 14), (''y'', AN (pad_top PAD + plotH / 2)), (''class'', AS ''axis-title''),
                     (''text-anchor'', AS ''middle''),
                     (''transform'', AS (''rotate(-90, 14, '' @ ns (pad_top PAD + plotH / 2) @ '')''))] [] [Txt ''f(x)'']]"

text \<open>The shaded \<open>\<Delta>x\<close> interval on the x axis and its label.\<close>

definition dx_rect :: "comp \<Rightarrow> node" where
  "dx_rect c =
     Elem ''rect'' [(''x'', AN (toSvgX (x0 c))), (''y'', AN (toSvgY 0 - 6)),
                    (''width'', AN (toSvgX (x0 c + deltaX c) - toSvgX (x0 c))), (''height'', AN 12),
                    (''fill'', AS COLOR_SEK), (''opacity'', AS ''0.25'')] [] []"

definition dx_label :: "num_fmt \<Rightarrow> comp \<Rightarrow> node" where
  "dx_label ns c =
     Elem ''text'' [(''x'', AN ((toSvgX (x0 c) + toSvgX (x0 c + deltaX c)) / 2)), (''y'', AN (toSvgY 0 - 10)),
                    (''class'', AS ''delta-label''), (''text-anchor'', AS ''middle'')] []
       [Txt (u_Delta @ ''x = '' @ toFixed ns 2 (deltaX c))]"

definition polylines :: "comp \<Rightarrow> node list" where
  "polylines c =
     [Elem ''polyline'' [(''points'', AS (tangentePoints c)), (''class'', AS ''line-tangente'')] [] [],
      Elem ''polyline'' [(''points'', AS (sekantePoints c)), (''class'', AS ''line-sekante'')] [] [],
      Elem ''polyline'' [(''points'', AS (funcPoints c)), (''class'', AS ''line-func'')] [] []]"

text \<open>The marker points \<open>P\<^sub>1\<close>, \<open>P\<^sub>2\<close> and their labels.\<close>

definition point_marker :: "svg_pt \<Rightarrow> string \<Rightarrow> string \<Rightarrow> node list" where
  "point_marker p col lbl =
     [Elem ''circle'' [(''cx'', AN (pt_x p)), (''cy'', AN (pt_y p)), (''r'', AS ''5''), (''fill'', AS col)] [] [],
      Elem ''text'' [(''x'', AN (pt_x p - 8)), (''y'', AN (pt_y p - 10)), (''class'', AS ''point-label''),
                     (''text-anchor'', AS ''middle'')] [] [Txt lbl]]"

definition markers :: "comp \<Rightarrow> node list" where
  "markers c = point_marker (px0 c) COLOR_POINT (''P'' @ u_sub1) @ point_marker (px1 c) COLOR_SEK (''P'' @ u_sub2)"

definition legend_line :: "string \<Rightarrow> string \<Rightarrow> (string \<times> attr) list \<Rightarrow> node" where
  "legend_line y col extra =
     Elem ''line'' ([(''x1'', AS ''0''), (''y1'', AS y), (''x2'', AS ''22''), (''y2'', AS y),
                     (''stroke'', AS col), (''stroke-width'', AS ''2.5'')] @ extra) [] []"

definition legend_text :: "string \<Rightarrow> string \<Rightarrow> node" where
  "legend_text y s = Elem ''text'' [(''x'', AS ''27''), (''y'', AS y), (''class'', AS ''legend-text'')] [] [Txt s]"

definition legend :: "num_fmt \<Rightarrow> comp \<Rightarrow> node" where
  "legend ns c =
     Elem ''g'' [(''transform'', AS (''translate('' @ ns (pad_left PAD + 8) @ '', '' @ ns (pad_top PAD + 10) @ '')''))] []
       [legend_line ''8'' COLOR_FUNC [],
        legend_text ''9'' (''f(x) = x'' @ u_sup2 @ '' '' @ u_minus @ '' 2x + 3''),
        legend_line ''26'' COLOR_SEK [],
        legend_text ''27'' (''Sekante (Steigung = '' @ slopeDisplay c @ '')''),
        legend_line ''44'' COLOR_TAN [(''stroke-dasharray'', AS ''5,3'')],
        legend_text ''45'' (''Tangente f'' @ u_prime @ ''('' @ ns (x0 c) @ '') = '' @ toFixed ns 2 (slope_tan c))]"

definition svg_chart :: "num_fmt \<Rightarrow> comp \<Rightarrow> js_number list \<Rightarrow> js_number list \<Rightarrow> node" where
  "svg_chart ns c xt yt =
     Elem ''svg'' [(''viewBox'', AS (''0 0 '' @ ns VW @ '' '' @ ns VH)), (''preserveAspectRatio'', AS ''xMidYMid meet''),
                   (''role'', AS ''img''), (''aria-label'', AS (''Diagramm: Sekante n'' @ u_auml @ ''hert sich der Tangente''))] []
       (grid_x xt @ grid_y yt @ axes @ labels_x ns xt @ labels_y ns yt @ axis_titles ns
        @ [dx_rect c, dx_label ns c] @ polylines c @ markers c @ [legend ns c])"

subsection \<open>The controls (lines 290--320)\<close>

definition preset_button :: "num_fmt \<Rightarrow> comp \<Rightarrow> js_number \<Rightarrow> node" where
  "preset_button ns c preset =
     Elem ''button'' [(''class:active'', AB (preset_active (deltaX c) preset))] [OnClick preset] [Txt (ns preset)]"

definition controls_view :: "num_fmt \<Rightarrow> comp \<Rightarrow> node" where
  "controls_view ns c =
     Elem ''div'' [(''class'', AS ''controls'')] []
       [Elem ''div'' [(''class'', AS ''slider-row'')] []
          [Elem ''label'' [(''for'', AS ''dx-slider'')] [] [Txt (u_Delta @ ''x'')],
           Elem ''input'' [(''id'', AS ''dx-slider''), (''type'', AS ''range''), (''min'', AN DX_MIN),
                           (''max'', AN DX_MAX), (''step'', AN DX_STEP), (''value'', AN (deltaX c))] [BindValue] [],
           Elem ''span'' [(''class'', AS ''dx-value'')] [] [Txt (toFixed ns 2 (deltaX c))]],
        Elem ''div'' [(''class'', AS ''presets'')] []
          (Elem ''span'' [(''class'', AS ''preset-label'')] [] [Txt ''Voreinstellungen:'']
           # map (preset_button ns c) presets)]"

subsection \<open>The info bar (lines 323--345)\<close>

definition info_tile :: "string \<Rightarrow> string \<Rightarrow> string \<Rightarrow> node" where
  "info_tile label col val =
     Elem ''div'' [(''class'', AS ''info-tile'')] []
       [Elem ''span'' [(''class'', AS ''info-label'')] [] [Txt label],
        Elem ''span'' [(''class'', AS ''info-value''), (''style'', AS (''color: '' @ col))] [] [Txt val]]"

definition info_bar :: "comp \<Rightarrow> node" where
  "info_bar c =
     Elem ''div'' [(''class'', AS ''info-bar'')] []
       [info_tile ''Sekantensteigung'' COLOR_SEK (slopeDisplay c),
        info_tile ''Approximationsfehler'' (errorColor c) (errorDisplay c)]"

subsection \<open>The page\<close>

definition app_view :: "num_fmt \<Rightarrow> comp \<Rightarrow> js_number list \<Rightarrow> js_number list \<Rightarrow> node" where
  "app_view ns c xt yt =
     Elem ''div'' [(''class'', AS ''applet'')] []
       [header_view, Elem ''div'' [(''class'', AS ''chart-wrap'')] [] [svg_chart ns c xt yt],
        controls_view ns c, info_bar c]"

definition render :: "num_fmt \<Rightarrow> comp \<Rightarrow> node option" where
  "render ns c = (case (xTicks ns, yTicks ns) of
                    (Some xt, Some yt) \<Rightarrow> Some (app_view ns c xt yt)
                  | _ \<Rightarrow> None)"

subsection \<open>Starting the applet\<close>

text \<open>
  \<open>const app = new App({target})\<close> in \<open>main.js\<close>: the instance is
  initialised (script and first flush), its page is created and mounted,
  then the \<open>onMount\<close> callbacks run.
\<close>

definition new_app :: "num_fmt \<Rightarrow> comp \<Rightarrow> comp \<times> node option" where
  "new_app ns c0 = (let c = mount ns c0 in (on_mount c, render ns c))"

subsection \<open>Queries on the tree\<close>

text \<open>An attribute of an element.\<close>

fun attr_of :: "string \<Rightarrow> node \<Rightarrow> attr option" where
  "attr_of a (Txt s) = None"
| "attr_of a (Elem t as hs cs) = map_of as a"

lemmas view_defs = app_view_def svg_chart_def grid_x_def grid_y_def axes_def labels_x_def labels_y_def
  axis_titles_def dx_rect_def dx_label_def polylines_def markers_def point_marker_def legend_def
  legend_line_def legend_text_def controls_view_def info_bar_def info_tile_def header_view_def
  line_el_def preset_button_def

lemma render_eq: "render ns c = Some (app_view ns c [0, 1/2, 1, 3/2, 2, 5/2, 3, 7/2, 4] [0, 1, 2, 3, 4, 5, 6, 7, 8, 9])"
  by (simp add: render_def xTicks_val yTicks_val)

text \<open>
  Claim C14. In every reachable state the shaded \<open>\<Delta>x\<close> interval has a
  positive width and lies inside the plot area horizontally (its right
  edge reaches the right border exactly for \<open>deltaX = 2\<close>).
\<close>

theorem dx_interval_inside:
  assumes "reachable ns c"
  shows "\<exists>x w. attr_of ''x'' (dx_rect c) = Some (AN x) \<and> attr_of ''width'' (dx_rect c) = Some (AN w)
           \<and> 0 < w \<and> pad_left PAD \<le> x \<and> x + w \<le> pad_left PAD + plotW"
proof -
  have f: "0 < deltaX c" "deltaX c \<le> 2" "x0 c = 2" using reachable_fields [OF assms] by simp_all
  have "attr_of ''x'' (dx_rect c) = Some (AN (toSvgX 2))"
    and "attr_of ''width'' (dx_rect c) = Some (AN (deltaX c * (525 / 4)))"
    using f(3) by (simp_all add: dx_rect_def toSvgX_affine algebra_simps)
  moreover have "0 < deltaX c * (525 / 4)" and "pad_left PAD \<le> toSvgX 2"
    and "toSvgX 2 + deltaX c * (525 / 4) \<le> pad_left PAD + plotW"
    using f by (simp_all add: toSvgX_affine PAD_def)
  ultimately show ?thesis by blast
qed

theorem dx_interval_inside_witness:
  "reachable (\<lambda>r. int_str (js_round r)) (mount (\<lambda>r. int_str (js_round r)) (spec_state (\<lambda>r. int_str (js_round r)) 0 1))
   \<and> attr_of ''width'' (dx_rect (mount (\<lambda>r. int_str (js_round r)) (spec_state (\<lambda>r. int_str (js_round r)) 0 1)))
       = Some (AN (1575 / 8))"
proof -
  have r: "reachable (\<lambda>r. int_str (js_round r)) (mount (\<lambda>r. int_str (js_round r)) (spec_state (\<lambda>r. int_str (js_round r)) 0 1))"
    by (rule reachable_mount)
  show ?thesis using r dx_interval_inside [OF r]
    by (simp add: mount_eq dx_rect_def toSvgX_affine)
qed


text \<open>
  Claim C6. The readouts of the info bar as text: in every reachable state
  the secant slope shows \<open>slope_sek.toFixed(4)\<close> as the two-decimal text
  of \<open>2 + deltaX\<close> followed by \<open>00\<close>, and the approximation error shows
  the slider's own readout \<open>deltaX.toFixed(2)\<close> (template line 304)
  followed by \<open>00\<close>: on this parabola the error at \<open>x0 = 2\<close> is exactly
  \<open>\<Delta>x\<close>, and the last two of the four decimals are always zero. The
  strings are the same on IEEE doubles: there \<open>slope_sek\<close> differs from
  \<open>2 + deltaX\<close> by about \<open>10^-13\<close>, far inside the \<open>5 \<cdot> 10^-5\<close> that
  \<open>toFixed(4)\<close> rounds away.
\<close>

theorem readout_text:
  assumes "reachable ns c"
  shows "slopeDisplay c = toFixed ns 2 (2 + deltaX c) @ ''00''
         \<and> errorDisplay c = toFixed ns 2 (deltaX c) @ ''00''"
proof -
  have f: "0 < deltaX c" "deltaX c \<le> 2" "100 * deltaX c \<in> \<int>"
    "slopeDisplay c = toFixed ns 4 (2 + deltaX c)" "errorDisplay c = toFixed ns 4 (deltaX c)"
    using reachable_fields [OF assms] by simp_all
  obtain k where k: "100 * deltaX c = of_int k" using f(3) by (auto elim!: Ints_cases)
  have k2: "100 * (2 + deltaX c) = of_int (200 + k)" using k by simp
  show ?thesis
    using f(1,2,4,5) toFixed_grid_pad [OF _ _ k, of ns] toFixed_grid_pad [OF _ _ k2, of ns] by simp
qed

theorem readout_text_witness:
  "reachable (\<lambda>r. int_str (js_round r)) (mount (\<lambda>r. int_str (js_round r)) (spec_state (\<lambda>r. int_str (js_round r)) 0 1))
   \<and> errorDisplay (mount (\<lambda>r. int_str (js_round r)) (spec_state (\<lambda>r. int_str (js_round r)) 0 1))
     = toFixed (\<lambda>r. int_str (js_round r)) 2 (3 / 2) @ ''00''"
proof -
  have r: "reachable (\<lambda>r. int_str (js_round r)) (mount (\<lambda>r. int_str (js_round r)) (spec_state (\<lambda>r. int_str (js_round r)) 0 1))"
    by (rule reachable_mount)
  have e: "deltaX (mount (\<lambda>r. int_str (js_round r)) (spec_state (\<lambda>r. int_str (js_round r)) 0 1)) = 3 / 2"
    by (simp add: mount_eq)
  show ?thesis by (rule conjI [OF r conjunct2 [OF readout_text [OF r, unfolded e]]])
qed

end
