(* ===== verification/Style.thy ===== *)
theory Style
  imports Render
begin

text \<open>
  The scoped stylesheet of \<open>App.svelte\<close> (lines 361--587) and the part of
  the CSS cascade that decides what it does to the page. A rule is its
  selector list and its declarations, in source order; a selector is a list
  of compound selectors joined by the descendant combinator (the only
  combinator the stylesheet uses); values are the source's text. Comments
  are dropped and quoted font names are written with \<open>sq\<close>.

  The cascade (CSS Cascading 4, Selectors 4, Custom Properties 1): among
  the declarations of a property that apply to an element, the inline
  \<open>style\<close> attribute wins, then the stylesheet rule of highest
  specificity, the later one on a tie; an SVG presentation attribute
  (\<open>stroke=\<dots>\<close>) counts below every rule. Without a declaration an
  inherited property takes its parent's value. \<open>var(--x)\<close> is replaced by
  the custom property's value on the element; a reference to an undefined
  one makes the declaration invalid. Svelte's scoping adds a class of the
  component to each selector and to each of the component's elements, which
  changes no match inside the component; \<open>:root\<close> is left unscoped. The
  page is not hovered (\<open>:hover\<close> matches nothing) and a pseudo-element
  selector matches no element itself.
\<close>

text \<open>A CSS string in single quotes.\<close>

definition sq :: "string \<Rightarrow> string" where
  "sq s = CHR 0x27 # s @ [CHR 0x27]"

datatype simple_sel =
  TypeSel string | ClassSel string | Universal | AttrEq string string
  | PseudoClass string | PseudoElem string

type_synonym compound_sel = "simple_sel list"
type_synonym complex_sel = "compound_sel list"

record css_rule =
  sel :: "complex_sel list"
  decls :: "(string \<times> string) list"

subsection \<open>The rules\<close>

text \<open>Design tokens: the custom properties of \<open>:root\<close> (lines 363--375).\<close>

definition css_tokens :: "css_rule list" where
  "css_tokens =
     [\<lparr>sel = [[[PseudoClass ''root'']]],
      decls = [(''--bg'', ''#fafaf7''),
               (''--surface'', ''#ffffff''),
               (''--border'', ''#ddddd0''),
               (''--text'', ''#1c1c1a''),
               (''--muted'', ''#666660''),
               (''--radius'', ''10px''),
               (''--shadow'', ''0 3px 16px rgba(0,0,0,.09)''),
               (''--font-body'', sq ''Georgia'' @ '', '' @ sq ''Times New Roman'' @ '', serif''),
               (''--font-ui'', sq ''Helvetica Neue'' @ '', Helvetica, Arial, sans-serif'')]\<rparr>]"

text \<open>Reset (lines 378--378).\<close>

definition css_reset :: "css_rule list" where
  "css_reset =
     [\<lparr>sel = [[[Universal]], [[Universal, PseudoElem ''before'']], [[Universal, PseudoElem ''after'']]],
      decls = [(''box-sizing'', ''border-box''),
               (''margin'', ''0''),
               (''padding'', ''0'')]\<rparr>]"

text \<open>The applet container (lines 381--392).\<close>

definition css_applet :: "css_rule list" where
  "css_applet =
     [\<lparr>sel = [[[ClassSel ''applet'']]],
      decls = [(''font-family'', ''var(--font-body)''),
               (''color'', ''var(--text)''),
               (''background'', ''var(--surface)''),
               (''border'', ''1px solid var(--border)''),
               (''border-radius'', ''var(--radius)''),
               (''box-shadow'', ''var(--shadow)''),
               (''overflow'', ''hidden''),
               (''max-width'', ''680px''),
               (''margin'', ''0 auto'')]\<rparr>]"

text \<open>The header (lines 395--411).\<close>

definition css_header :: "css_rule list" where
  "css_header =
     [\<lparr>sel = [[[TypeSel ''header'']]],
      decls = [(''padding'', ''20px 24px 16px''),
               (''border-bottom'', ''1px solid var(--border)''),
               (''background'', ''#f3f4f6'')]\<rparr>,
      \<lparr>sel = [[[TypeSel ''header''], [TypeSel ''h1'']]],
      decls = [(''font-size'', ''1.1rem''),
               (''font-weight'', ''normal''),
               (''letter-spacing'', ''.02em'')]\<rparr>,
      \<lparr>sel = [[[TypeSel ''header''], [TypeSel ''p'']]],
      decls = [(''margin-top'', ''5px''),
               (''font-size'', ''.82rem''),
               (''font-family'', ''var(--font-ui)''),
               (''color'', ''var(--muted)''),
               (''line-height'', ''1.5'')]\<rparr>]"

text \<open>The SVG wrapper (lines 414--422).\<close>

definition css_chart :: "css_rule list" where
  "css_chart =
     [\<lparr>sel = [[[ClassSel ''chart-wrap'']]],
      decls = [(''padding'', ''16px 20px 0''),
               (''background'', ''var(--surface)'')]\<rparr>,
      \<lparr>sel = [[[ClassSel ''chart-wrap''], [TypeSel ''svg'']]],
      decls = [(''width'', ''100%''),
               (''height'', ''auto''),
               (''display'', ''block'')]\<rparr>]"

text \<open>The SVG elements and the curves (lines 425--484).\<close>

definition css_svg :: "css_rule list" where
  "css_svg =
     [\<lparr>sel = [[[ClassSel ''grid-line'']]],
      decls = [(''stroke'', ''#e8e8e0''),
               (''stroke-width'', ''1'')]\<rparr>,
      \<lparr>sel = [[[ClassSel ''axis'']]],
      decls = [(''stroke'', ''#aaa''),
               (''stroke-width'', ''1.5'')]\<rparr>,
      \<lparr>sel = [[[ClassSel ''tick-label'']]],
      decls = [(''font-family'', ''var(--font-ui)''),
               (''font-size'', ''11px''),
               (''fill'', ''var(--muted)'')]\<rparr>,
      \<lparr>sel = [[[ClassSel ''axis-title'']]],
      decls = [(''font-family'', ''var(--font-ui)''),
               (''font-size'', ''12px''),
               (''fill'', ''var(--muted)''),
               (''font-style'', ''italic'')]\<rparr>,
      \<lparr>sel = [[[ClassSel ''delta-label'']]],
      decls = [(''font-family'', ''var(--font-ui)''),
               (''font-size'', ''11px''),
               (''fill'', ''#e60000''),
               (''font-weight'', ''600'')]\<rparr>,
      \<lparr>sel = [[[ClassSel ''point-label'']]],
      decls = [(''font-family'', ''var(--font-ui)''),
               (''font-size'', ''11px''),
               (''fill'', ''#8e44ad'')]\<rparr>,
      \<lparr>sel = [[[ClassSel ''legend-text'']]],
      decls = [(''font-family'', ''var(--font-ui)''),
               (''font-size'', ''11px''),
               (''fill'', ''var(--text)''),
               (''dominant-baseline'', ''middle'')]\<rparr>,
      \<lparr>sel = [[[ClassSel ''line-func'']]],
      decls = [(''fill'', ''none''),
               (''stroke'', ''#1a5276''),
               (''stroke-width'', ''2.5''),
               (''stroke-linejoin'', ''round'')]\<rparr>,
      \<lparr>sel = [[[ClassSel ''line-sekante'']]],
      decls = [(''fill'', ''none''),
               (''stroke'', ''#c0392b''),
               (''stroke-width'', ''2''),
               (''stroke-linejoin'', ''round''),
               (''transition'', ''stroke 0.2s'')]\<rparr>,
      \<lparr>sel = [[[ClassSel ''line-tangente'']]],
      decls = [(''fill'', ''none''),
               (''stroke'', ''#27ae60''),
               (''stroke-width'', ''1.8''),
               (''stroke-dasharray'', ''7 4''),
               (''stroke-linejoin'', ''round'')]\<rparr>]"

text \<open>The control bar (lines 487--520).\<close>

definition css_controls :: "css_rule list" where
  "css_controls =
     [\<lparr>sel = [[[ClassSel ''controls'']]],
      decls = [(''padding'', ''16px 24px 14px''),
               (''display'', ''flex''),
               (''flex-direction'', ''column''),
               (''gap'', ''10px''),
               (''border-top'', ''1px solid var(--border)'')]\<rparr>,
      \<lparr>sel = [[[ClassSel ''slider-row'']]],
      decls = [(''display'', ''flex''),
               (''align-items'', ''center''),
               (''gap'', ''12px''),
               (''font-family'', ''var(--font-ui)''),
               (''font-size'', ''.85rem'')]\<rparr>,
      \<lparr>sel = [[[ClassSel ''slider-row''], [TypeSel ''label'']]],
      decls = [(''min-width'', ''24px''),
               (''color'', ''var(--muted)''),
               (''font-style'', ''italic'')]\<rparr>,
      \<lparr>sel = [[[ClassSel ''slider-row''], [TypeSel ''input'', AttrEq ''type'' ''range'']]],
      decls = [(''flex'', ''1''),
               (''accent-color'', ''#c0392b''),
               (''cursor'', ''pointer''),
               (''height'', ''6px'')]\<rparr>,
      \<lparr>sel = [[[ClassSel ''dx-value'']]],
      decls = [(''min-width'', ''40px''),
               (''font-weight'', ''700''),
               (''font-size'', ''.95rem''),
               (''text-align'', ''right''),
               (''font-variant-numeric'', ''tabular-nums''),
               (''color'', ''#c0392b'')]\<rparr>]"

text \<open>The preset buttons (lines 523--555).\<close>

definition css_presets :: "css_rule list" where
  "css_presets =
     [\<lparr>sel = [[[ClassSel ''presets'']]],
      decls = [(''display'', ''flex''),
               (''align-items'', ''center''),
               (''gap'', ''8px''),
               (''flex-wrap'', ''wrap'')]\<rparr>,
      \<lparr>sel = [[[ClassSel ''preset-label'']]],
      decls = [(''font-family'', ''var(--font-ui)''),
               (''font-size'', ''.78rem''),
               (''color'', ''var(--muted)''),
               (''margin-right'', ''2px'')]\<rparr>,
      \<lparr>sel = [[[TypeSel ''button'']]],
      decls = [(''font-family'', ''var(--font-ui)''),
               (''font-size'', ''.8rem''),
               (''padding'', ''3px 10px''),
               (''border'', ''1px solid var(--border)''),
               (''border-radius'', ''4px''),
               (''background'', ''var(--bg)''),
               (''cursor'', ''pointer''),
               (''color'', ''var(--text)''),
               (''transition'', ''background .15s, border-color .15s'')]\<rparr>,
      \<lparr>sel = [[[TypeSel ''button'', PseudoClass ''hover'']]],
      decls = [(''background'', ''#f0ede0''),
               (''border-color'', ''#bbb'')]\<rparr>,
      \<lparr>sel = [[[TypeSel ''button'', ClassSel ''active'']]],
      decls = [(''background'', ''#c0392b''),
               (''color'', ''white''),
               (''border-color'', ''#c0392b'')]\<rparr>]"

text \<open>The info tiles (lines 558--586).\<close>

definition css_info :: "css_rule list" where
  "css_info =
     [\<lparr>sel = [[[ClassSel ''info-bar'']]],
      decls = [(''display'', ''flex''),
               (''border-top'', ''1px solid var(--border)''),
               (''background'', ''#f3f4f6'')]\<rparr>,
      \<lparr>sel = [[[ClassSel ''info-tile'']]],
      decls = [(''flex'', ''1''),
               (''padding'', ''12px 16px''),
               (''display'', ''flex''),
               (''flex-direction'', ''column''),
               (''gap'', ''2px''),
               (''border-right'', ''1px solid var(--border)'')]\<rparr>,
      \<lparr>sel = [[[ClassSel ''info-tile'', PseudoClass ''last-child'']]],
      decls = [(''border-right'', ''none'')]\<rparr>,
      \<lparr>sel = [[[ClassSel ''info-label'']]],
      decls = [(''font-family'', ''var(--font-ui)''),
               (''font-size'', ''.7rem''),
               (''text-transform'', ''uppercase''),
               (''letter-spacing'', ''.05em''),
               (''color'', ''var(--muted)'')]\<rparr>,
      \<lparr>sel = [[[ClassSel ''info-value'']]],
      decls = [(''font-family'', ''var(--font-ui)''),
               (''font-size'', ''1.15rem''),
               (''font-weight'', ''700''),
               (''font-variant-numeric'', ''tabular-nums'')]\<rparr>]"

definition stylesheet :: "css_rule list" where
  "stylesheet = css_tokens @ css_reset @ css_applet @ css_header @ css_chart @ css_svg
                @ css_controls @ css_presets @ css_info"

subsection \<open>Selectors\<close>

text \<open>
  An element where it stands, as selectors see it: its tag, its attributes,
  whether it is the document's root and whether it is the last child.
\<close>

record ectx =
  ctx_tag :: string
  ctx_attrs :: "(string \<times> attr) list"
  ctx_root :: bool
  ctx_last :: bool

text \<open>The words of a \<open>class\<close> attribute and the classes a \<open>class:name\<close> directive switches on.\<close>

definition words :: "string \<Rightarrow> string list" where
  "words s = filter (\<lambda>w. w \<noteq> []) (split_on CHR '' '' s)"

fun attr_classes :: "string \<times> attr \<Rightarrow> string list" where
  "attr_classes (k, AS v) = (if k = ''class'' then words v else [])"
| "attr_classes (k, AB b) = (if take 6 k = ''class:'' \<and> b then [drop 6 k] else [])"
| "attr_classes (k, AN x) = []"

definition node_classes :: "(string \<times> attr) list \<Rightarrow> string list" where
  "node_classes as = concat (map attr_classes as)"

fun simple_match :: "simple_sel \<Rightarrow> ectx \<Rightarrow> bool" where
  "simple_match (TypeSel t) e = (ctx_tag e = t)"
| "simple_match (ClassSel c) e = (c \<in> set (node_classes (ctx_attrs e)))"
| "simple_match Universal e = True"
| "simple_match (AttrEq a v) e = (map_of (ctx_attrs e) a = Some (AS v))"
| "simple_match (PseudoClass p) e =
     (if p = ''root'' then ctx_root e else if p = ''last-child'' then ctx_last e else False)"
| "simple_match (PseudoElem p) e = False"

definition compound_match :: "compound_sel \<Rightarrow> ectx \<Rightarrow> bool" where
  "compound_match c e = list_all (\<lambda>s. simple_match s e) c"

text \<open>The descendant combinator: the compounds, nearest first, match ancestors in order.\<close>

fun desc_match :: "compound_sel list \<Rightarrow> ectx list \<Rightarrow> bool" where
  "desc_match [] anc = True"
| "desc_match (c # cs) [] = False"
| "desc_match (c # cs) (a # anc) = ((compound_match c a \<and> desc_match cs anc) \<or> desc_match (c # cs) anc)"

text \<open>A path is the element followed by its ancestors, nearest first.\<close>

fun complex_match :: "complex_sel \<Rightarrow> ectx list \<Rightarrow> bool" where
  "complex_match cs [] = False"
| "complex_match cs (e # anc) =
     (case rev cs of [] \<Rightarrow> False | c # rest \<Rightarrow> compound_match c e \<and> desc_match rest anc)"

text \<open>Specificity \<open>(b, c)\<close>: classes, attributes and pseudo-classes; types and pseudo-elements (the stylesheet has no id selector).\<close>

fun simple_spec :: "simple_sel \<Rightarrow> nat \<times> nat" where
  "simple_spec (TypeSel t) = (0, 1)"
| "simple_spec (ClassSel c) = (1, 0)"
| "simple_spec Universal = (0, 0)"
| "simple_spec (AttrEq a v) = (1, 0)"
| "simple_spec (PseudoClass p) = (1, 0)"
| "simple_spec (PseudoElem p) = (0, 1)"

definition complex_spec :: "complex_sel \<Rightarrow> nat \<times> nat" where
  "complex_spec cs = (sum_list (map (fst \<circ> simple_spec) (concat cs)), sum_list (map (snd \<circ> simple_spec) (concat cs)))"

definition spec_le :: "nat \<times> nat \<Rightarrow> nat \<times> nat \<Rightarrow> bool" where
  "spec_le a b \<longleftrightarrow> fst a < fst b \<or> (fst a = fst b \<and> snd a \<le> snd b)"

text \<open>The specificity with which a rule applies: that of its most specific matching selector.\<close>

definition rule_spec :: "ectx list \<Rightarrow> css_rule \<Rightarrow> (nat \<times> nat) option" where
  "rule_spec path r =
     fold (\<lambda>s acc. if complex_match s path
                    then (case acc of None \<Rightarrow> Some (complex_spec s)
                          | Some a \<Rightarrow> Some (if spec_le a (complex_spec s) then complex_spec s else a))
                    else acc) (sel r) None"

subsection \<open>The cascade\<close>

text \<open>The declarations of a property the stylesheet applies to the element, in source order.\<close>

definition candidates :: "string \<Rightarrow> ectx list \<Rightarrow> ((nat \<times> nat) \<times> string) list" where
  "candidates p path =
     concat (map (\<lambda>r. case rule_spec path r of None \<Rightarrow> []
                       | Some sp \<Rightarrow> map (\<lambda>d. (sp, snd d)) (filter (\<lambda>d. fst d = p) (decls r))) stylesheet)"

text \<open>The winner: highest specificity, the later on a tie.\<close>

definition cascade :: "string \<Rightarrow> ectx list \<Rightarrow> string option" where
  "cascade p path =
     map_option snd (fold (\<lambda>cd acc. case acc of None \<Rightarrow> Some cd
                                     | Some a \<Rightarrow> if spec_le (fst a) (fst cd) then Some cd else acc)
                          (candidates p path) None)"

definition strip :: "string \<Rightarrow> string" where
  "strip s = rev (dropWhile (\<lambda>c. c = CHR '' '') (rev (dropWhile (\<lambda>c. c = CHR '' '') s)))"

text \<open>The declarations of an inline \<open>style\<close> attribute.\<close>

definition style_decls :: "string \<Rightarrow> (string \<times> string) list" where
  "style_decls s =
     map (\<lambda>d. (strip (takeWhile (\<lambda>c. c \<noteq> CHR '':'') d), strip (drop 1 (dropWhile (\<lambda>c. c \<noteq> CHR '':'') d))))
         (filter (\<lambda>d. strip d \<noteq> []) (split_on CHR '';'' s))"

definition inline_decl :: "string \<Rightarrow> (string \<times> attr) list \<Rightarrow> string option" where
  "inline_decl p as =
     (case map_of as ''style'' of Some (AS s) \<Rightarrow> map_of (rev (style_decls s)) p | _ \<Rightarrow> None)"

text \<open>SVG presentation attributes of the page.\<close>

definition presentation_props :: "string list" where
  "presentation_props = [''fill'', ''stroke'', ''stroke-width'', ''stroke-dasharray'', ''opacity'',
                         ''text-anchor'', ''dominant-baseline'']"

definition presentation_decl :: "string \<Rightarrow> (string \<times> attr) list \<Rightarrow> string option" where
  "presentation_decl p as =
     (if p \<in> set presentation_props
      then (case map_of as p of Some (AS v) \<Rightarrow> Some v | _ \<Rightarrow> None) else None)"

definition declared :: "string \<Rightarrow> ectx list \<Rightarrow> string option" where
  "declared p path =
     (case path of [] \<Rightarrow> None
      | e # anc \<Rightarrow> (case inline_decl p (ctx_attrs e) of Some v \<Rightarrow> Some v
                    | None \<Rightarrow> (case cascade p path of Some v \<Rightarrow> Some v
                               | None \<Rightarrow> presentation_decl p (ctx_attrs e))))"

text \<open>Inherited properties among those the stylesheet sets (CSS and SVG property tables); custom properties inherit.\<close>

definition inherited_prop :: "string \<Rightarrow> bool" where
  "inherited_prop p \<longleftrightarrow> take 2 p = ''--'' \<or>
     p \<in> set [''color'', ''font-family'', ''font-size'', ''font-style'', ''font-weight'', ''font-variant-numeric'',
              ''letter-spacing'', ''line-height'', ''text-align'', ''text-transform'', ''cursor'', ''accent-color'',
              ''fill'', ''stroke'', ''stroke-width'', ''stroke-dasharray'', ''stroke-linejoin'', ''text-anchor'']"

fun custom_value :: "string \<Rightarrow> ectx list \<Rightarrow> string option" where
  "custom_value n [] = None"
| "custom_value n (e # anc) = (case declared n (e # anc) of Some v \<Rightarrow> Some v | None \<Rightarrow> custom_value n anc)"

text \<open>Substituting \<open>var(--name)\<close>; \<open>None\<close> when a referenced property is undefined.\<close>

function subst_vars :: "(string \<Rightarrow> string option) \<Rightarrow> string \<Rightarrow> string option" where
  "subst_vars env [] = Some []"
| "subst_vars env (c # s) =
     (if take 4 (c # s) = ''var(''
      then (case env (takeWhile (\<lambda>x. x \<noteq> CHR '')'') (drop 3 s)) of
              None \<Rightarrow> None
            | Some v \<Rightarrow> map_option (\<lambda>r. v @ r) (subst_vars env (drop 1 (dropWhile (\<lambda>x. x \<noteq> CHR '')'') (drop 3 s)))))
      else map_option (\<lambda>r. c # r) (subst_vars env s))"
  by pat_completeness auto
termination
  by (relation "measure (\<lambda>(env, s). length s)")
     (auto intro!: le_imp_less_Suc order.trans [OF diff_le_self] order.trans [OF length_dropWhile_le])

text \<open>The value of a property on the element at the head of the path.\<close>

fun specified :: "string \<Rightarrow> ectx list \<Rightarrow> string option" where
  "specified p [] = None"
| "specified p (e # anc) =
     (case declared p (e # anc) of
        Some v \<Rightarrow> (case subst_vars (\<lambda>n. custom_value n (e # anc)) v of
                    Some v' \<Rightarrow> Some v'
                  | None \<Rightarrow> if inherited_prop p then specified p anc else None)
      | None \<Rightarrow> if inherited_prop p then specified p anc else None)"

subsection \<open>The document\<close>

text \<open>The page of \<open>index.html\<close>, with the component mounted into \<open><div id="app"></div>\<close> (\<open>main.js\<close>).\<close>

definition host_document :: "node \<Rightarrow> node" where
  "host_document n = Elem ''html'' [] [] [Elem ''body'' [] [] [Elem ''div'' [(''id'', AS ''app'')] [] [n]]]"

text \<open>Every element of a tree with its path.\<close>

fun ctxs :: "ectx list \<Rightarrow> bool \<Rightarrow> bool \<Rightarrow> node \<Rightarrow> ectx list list"
and ctxs_list :: "ectx list \<Rightarrow> node list \<Rightarrow> ectx list list" where
  "ctxs anc r l (Txt s) = []"
| "ctxs anc r l (Elem t as hs cs) =
     (\<lparr>ctx_tag = t, ctx_attrs = as, ctx_root = r, ctx_last = l\<rparr> # anc)
     # ctxs_list (\<lparr>ctx_tag = t, ctx_attrs = as, ctx_root = r, ctx_last = l\<rparr> # anc) cs"
| "ctxs_list anc [] = []"
| "ctxs_list anc (c # cs) = ctxs anc False (cs = []) c @ ctxs_list anc cs"

definition doc_paths :: "node \<Rightarrow> ectx list list" where
  "doc_paths d = ctxs [] True True d"

text \<open>The document of a component state: the rendered page inside \<open>index.html\<close>.\<close>

definition document :: "num_fmt \<Rightarrow> comp \<Rightarrow> node option" where
  "document ns c = map_option host_document (render ns c)"

subsection \<open>Queries on the page\<close>

text \<open>The classes an element may carry: its \<open>class\<close> words and the names of its \<open>class:\<close> directives, on or off.\<close>

fun attr_static_classes :: "string \<times> attr \<Rightarrow> string list" where
  "attr_static_classes (k, AS v) = (if k = ''class'' then words v else [])"
| "attr_static_classes (k, AB b) = (if take 6 k = ''class:'' then [drop 6 k] else [])"
| "attr_static_classes (k, AN x) = []"

text \<open>The ancestors of the preset buttons and a button as selectors see it.\<close>

definition preset_anc :: "ectx list" where
  "preset_anc =
     [\<lparr>ctx_tag = ''div'', ctx_attrs = [(''class'', AS ''presets'')], ctx_root = False, ctx_last = True\<rparr>,
      \<lparr>ctx_tag = ''div'', ctx_attrs = [(''class'', AS ''controls'')], ctx_root = False, ctx_last = False\<rparr>,
      \<lparr>ctx_tag = ''div'', ctx_attrs = [(''class'', AS ''applet'')], ctx_root = False, ctx_last = True\<rparr>,
      \<lparr>ctx_tag = ''div'', ctx_attrs = [(''id'', AS ''app'')], ctx_root = False, ctx_last = True\<rparr>,
      \<lparr>ctx_tag = ''body'', ctx_attrs = [], ctx_root = False, ctx_last = True\<rparr>,
      \<lparr>ctx_tag = ''html'', ctx_attrs = [], ctx_root = True, ctx_last = True\<rparr>]"

definition button_ctx :: "bool \<Rightarrow> bool \<Rightarrow> ectx" where
  "button_ctx b l = \<lparr>ctx_tag = ''button'', ctx_attrs = [(''class:active'', AB b)], ctx_root = False, ctx_last = l\<rparr>"

text \<open>The two numeric readouts of the info bar (class \<open>info-value\<close>), in document order.\<close>

definition readout_paths :: "node \<Rightarrow> ectx list list" where
  "readout_paths d = filter (\<lambda>p. ''info-value'' \<in> set (concat (map attr_static_classes (ctx_attrs (hd p))))) (doc_paths d)"

subsection \<open>Evaluation lemmas\<close>

lemma document_eq:
  "document ns c = Some (host_document (app_view ns c [0, 1/2, 1, 3/2, 2, 5/2, 3, 7/2, 4] [0, 1, 2, 3, 4, 5, 6, 7, 8, 9]))"
  by (simp add: document_def render_eq)

lemma button_background:
  "specified ''background'' (button_ctx b l # preset_anc) = Some (if b then ''#c0392b'' else ''#fafaf7'')"
  by (induct b; induct l) code_simp+

lemma document_buttons:
  "filter (\<lambda>p. ctx_tag (hd p) = ''button'')
     (doc_paths (host_document (app_view ns c [0, 1/2, 1, 3/2, 2, 5/2, 3, 7/2, 4] [0, 1, 2, 3, 4, 5, 6, 7, 8, 9])))
   = map (\<lambda>(q, l). button_ctx (preset_active (deltaX c) q) l # preset_anc) (zip presets [False, False, False, False, True])"
  by code_simp

text \<open>
  Claim C10. The highlighted preset, as the browser paints it: in every
  reachable state, after a click on a preset button, that button's
  background is \<open>#c0392b\<close> (the rule \<open>button.active\<close>, more specific than
  \<open>button\<close>) and every other button's is \<open>var(--bg)\<close> \<open>= #fafaf7\<close>.
\<close>

theorem active_button_style:
  assumes "reachable ns c" and "p \<in> set presets"
  shows "\<exists>d. document ns (handle ns c (Click p)) = Some d
           \<and> map (specified ''background'') (filter (\<lambda>path. ctx_tag (hd path) = ''button'') (doc_paths d))
             = map (\<lambda>q. Some (if q = p then ''#c0392b'' else ''#fafaf7'')) presets"
proof -
  have c: "c = spec_state ns 2 (deltaX c)" and g: "on_grid p"
    using reachable_spec [OF assms(1)] presets_grid [OF assms(2)] by simp_all
  have "consistent ns c" using c consistent_spec_state by metis
  then have dx: "deltaX (handle ns c (Click p)) = p" by (simp add: set_deltaX_eq)
  have pa: "preset_active p q \<longleftrightarrow> q = p" if "q \<in> set presets" for q
    using g presets_grid [OF that] preset_active_grid [of p q] by (auto simp: on_grid_def)
  have "map (specified ''background'')
          (map (\<lambda>(q, l). button_ctx (preset_active p q) l # preset_anc) (zip presets [False, False, False, False, True]))
        = map (\<lambda>q. Some (if q = p then ''#c0392b'' else ''#fafaf7'')) presets"
    using pa by (simp del: specified.simps add: presets_def button_background)
  then show ?thesis using document_eq document_buttons dx by (simp add: dx)
qed

theorem active_button_style_witness:
  "reachable (\<lambda>r. int_str (js_round r)) (mount (\<lambda>r. int_str (js_round r)) (spec_state (\<lambda>r. int_str (js_round r)) 0 1))
   \<and> (1 / 2 :: real) \<in> set presets
   \<and> (\<exists>d. document (\<lambda>r. int_str (js_round r))
           (handle (\<lambda>r. int_str (js_round r)) (mount (\<lambda>r. int_str (js_round r)) (spec_state (\<lambda>r. int_str (js_round r)) 0 1)) (Click (1 / 2)))
         = Some d
       \<and> map (specified ''background'') (filter (\<lambda>path. ctx_tag (hd path) = ''button'') (doc_paths d))
         = [Some ''#fafaf7'', Some ''#fafaf7'', Some ''#c0392b'', Some ''#fafaf7'', Some ''#fafaf7''])"
proof -
  have r: "reachable (\<lambda>r. int_str (js_round r)) (mount (\<lambda>r. int_str (js_round r)) (spec_state (\<lambda>r. int_str (js_round r)) 0 1))"
    by (rule reachable_mount)
  have p: "(1 / 2 :: real) \<in> set presets" by (simp add: presets_def)
  show ?thesis using r p active_button_style [OF r p] by (simp add: presets_def)
qed

lemma subst_vars_novar: "CHR ''v'' \<notin> set s \<Longrightarrow> subst_vars env s = Some s"
  by (induction s) auto

lemma strip_plain:
  assumes "s \<noteq> []" and "hd s \<noteq> CHR '' ''" and "last s \<noteq> CHR '' ''"
  shows "strip s = s"
proof -
  have "dropWhile (\<lambda>c. c = CHR '' '') s = s" using assms by (simp add: dropWhile_eq_self_iff)
  moreover have "dropWhile (\<lambda>c. c = CHR '' '') (rev s) = rev s"
    using assms by (simp add: dropWhile_eq_self_iff hd_rev)
  ultimately show ?thesis by (simp add: strip_def)
qed

text \<open>An inline \<open>style="color: s"\<close> gives the element the colour \<open>s\<close>.\<close>

lemma specified_inline_color:
  assumes attrs: "ctx_attrs e = [(''class'', AS k), (''style'', AS (''color: '' @ s))]"
    and "CHR '';'' \<notin> set s" and "CHR ''v'' \<notin> set s" and "s \<noteq> []"
    and "hd s \<noteq> CHR '' ''" and "last s \<noteq> CHR '' ''"
  shows "specified ''color'' (e # anc) = Some s"
proof -
  have sp: "split_on CHR '';'' (''color: '' @ s) = [''color: '' @ s]" using assms(2) by simp
  have "strip (CHR '' '' # s) = s" using strip_plain [OF assms(4-6)] by (simp add: strip_def)
  then have "style_decls (''color: '' @ s) = [(''color'', s)]"
    using sp by (simp add: style_decls_def strip_def)
  then have "inline_decl ''color'' (ctx_attrs e) = Some s" using attrs by (simp add: inline_decl_def)
  then show ?thesis using subst_vars_novar [OF assms(3)] by (simp add: declared_def)
qed

lemma interpolateColor_shape:
  "CHR '';'' \<notin> set (interpolateColor t) \<and> CHR ''v'' \<notin> set (interpolateColor t) \<and> interpolateColor t \<noteq> []
   \<and> hd (interpolateColor t) = CHR ''r'' \<and> last (interpolateColor t) = CHR '')''"
proof -
  have "CHR '';'' \<notin> set (int_str i) \<and> CHR ''v'' \<notin> set (int_str i)" for i
    using int_str_chars [of "CHR '';''" i] int_str_chars [of "CHR ''v''" i] by (auto simp: is_digit_def)
  then show ?thesis
    by (simp add: interpolateColor_def rgb_str_def split: prod.splits)
qed

lemma readouts:
  "length (readout_paths (host_document (app_view ns c [0, 1/2, 1, 3/2, 2, 5/2, 3, 7/2, 4] [0, 1, 2, 3, 4, 5, 6, 7, 8, 9]))) = 2
   \<and> specified ''color'' (hd (readout_paths (host_document
       (app_view ns c [0, 1/2, 1, 3/2, 2, 5/2, 3, 7/2, 4] [0, 1, 2, 3, 4, 5, 6, 7, 8, 9])))) = Some ''#E60000''
   \<and> ctx_attrs (hd (last (readout_paths (host_document
       (app_view ns c [0, 1/2, 1, 3/2, 2, 5/2, 3, 7/2, 4] [0, 1, 2, 3, 4, 5, 6, 7, 8, 9])))))
     = [(''class'', AS ''info-value''), (''style'', AS (''color: '' @ errorColor c))]"
  unfolding readout_paths_def by code_simp

lemma list_of_two:
  assumes "length ys = 2"
  shows "ys = [hd ys, last ys]"
proof -
  obtain a b where "ys = [a, b]" using assms by (auto simp: numeral_2_eq_2 length_Suc_conv)
  then show ?thesis by simp
qed

lemma ctxs_nonempty:
  "\<forall>p \<in> set (ctxs anc r l n). p \<noteq> []"
  "\<forall>p \<in> set (ctxs_list anc cs). p \<noteq> []"
  by (induction anc r l n and anc cs rule: ctxs_ctxs_list.induct) auto

lemma readout_paths_nonempty:
  assumes "p \<in> set (readout_paths d)"
  shows "p \<noteq> []"
proof -
  have "p \<in> set (ctxs [] True True d)" using assms by (simp add: readout_paths_def doc_paths_def)
  then show ?thesis using ctxs_nonempty(1) by blast
qed

text \<open>
  Claim C12. The two readouts of the info bar as painted. Both take their
  colour from their inline \<open>style\<close> attribute (template lines 331 and 342;
  the stylesheet's \<open>.info-value\<close> rule sets no colour, as its comment on
  line 585 says): in every reachable state the secant slope is painted in
  \<open>COLOR_SEK = #E60000\<close> and the approximation error in the reactive
  \<open>errorColor\<close>, which is \<open>interpolateColor(deltaX / 3)\<close> there; no rule of
  the stylesheet and no inherited \<open>color\<close> overrides either.
\<close>

theorem readout_colours:
  assumes "reachable ns c"
  shows "\<exists>d. document ns c = Some d
           \<and> map (specified ''color'') (readout_paths d)
             = [Some ''#E60000'', Some (interpolateColor (deltaX c / 3))]"
proof -
  let ?d = "host_document (app_view ns c [0, 1/2, 1, 3/2, 2, 5/2, 3, 7/2, 4] [0, 1, 2, 3, 4, 5, 6, 7, 8, 9])"
  have f: "0 < deltaX c" "deltaX c \<le> 2" "errorColor c = interpolateColor (deltaX c / 3)"
    using reachable_fields [OF assms] by simp_all
  have r: "length (readout_paths ?d) = 2" "specified ''color'' (hd (readout_paths ?d)) = Some ''#E60000''"
    "ctx_attrs (hd (last (readout_paths ?d)))
       = [(''class'', AS ''info-value''), (''style'', AS (''color: '' @ interpolateColor (deltaX c / 3)))]"
    using readouts [of ns c] f(3) by simp_all
  have "last (readout_paths ?d) \<in> set (readout_paths ?d)" using r(1) by (intro last_in_set) auto
  then have "last (readout_paths ?d) \<noteq> []" by (rule readout_paths_nonempty)
  then obtain e anc where ea: "last (readout_paths ?d) = e # anc" by (auto simp: neq_Nil_conv)
  have l: "specified ''color'' (last (readout_paths ?d)) = Some (interpolateColor (deltaX c / 3))"
    unfolding ea using interpolateColor_shape [of "deltaX c / 3"] r(3) ea
    by (intro specified_inline_color) simp_all
  have "map (specified ''color'') (readout_paths ?d)
        = map (specified ''color'') [hd (readout_paths ?d), last (readout_paths ?d)]"
    using list_of_two [OF r(1)] by (rule arg_cong)
  then have "map (specified ''color'') (readout_paths ?d) = [Some ''#E60000'', Some (interpolateColor (deltaX c / 3))]"
    using r(2) l by (simp only: list.map)
  then show ?thesis using document_eq by auto
qed

theorem readout_colours_witness:
  "reachable (\<lambda>r. int_str (js_round r)) (mount (\<lambda>r. int_str (js_round r)) (spec_state (\<lambda>r. int_str (js_round r)) 0 1))
   \<and> (\<exists>d. document (\<lambda>r. int_str (js_round r)) (mount (\<lambda>r. int_str (js_round r)) (spec_state (\<lambda>r. int_str (js_round r)) 0 1)) = Some d
        \<and> map (specified ''color'') (readout_paths d) = [Some ''#E60000'', Some (interpolateColor (1 / 2))])"
proof -
  have r: "reachable (\<lambda>r. int_str (js_round r)) (mount (\<lambda>r. int_str (js_round r)) (spec_state (\<lambda>r. int_str (js_round r)) 0 1))"
    by (rule reachable_mount)
  have e: "deltaX (mount (\<lambda>r. int_str (js_round r)) (spec_state (\<lambda>r. int_str (js_round r)) 0 1)) / 3 = 1 / 2"
    by (simp add: mount_eq)
  obtain d where d: "document (\<lambda>r. int_str (js_round r)) (mount (\<lambda>r. int_str (js_round r)) (spec_state (\<lambda>r. int_str (js_round r)) 0 1)) = Some d"
    and m: "map (specified ''color'') (readout_paths d)
            = [Some ''#E60000'', Some (interpolateColor (deltaX (mount (\<lambda>r. int_str (js_round r))
                 (spec_state (\<lambda>r. int_str (js_round r)) 0 1)) / 3))]"
    using readout_colours [OF r] by (elim exE conjE) (erule that, assumption)
  show ?thesis by (rule conjI [OF r], rule exI [where x = d], rule conjI [OF d m [unfolded e]])
qed

end
