(* ===== verification/Build.thy ===== *)
theory Build
  imports Prelude
begin

text \<open>
  The build configuration \<open>vite.config.js\<close> (lines 18--35) as a record:
  the Svelte plugin, the relative \<open>base: './'\<close> (so that the built page
  loads its assets from the directory it is deployed in, as the
  configuration's comment explains), the output directory \<open>dist\<close> and the
  disabled manual chunking. The configuration is data only; no property of
  the widget depends on it.
\<close>

record build_opts =
  outDir :: string
  manualChunks :: "string option"

record vite_config =
  plugins :: "string list"
  base :: string
  build :: build_opts

text \<open>\<open>defineConfig({plugins: [svelte()], base: './', build: {outDir: 'dist', rollupOptions: {output: {manualChunks: undefined}}}})\<close>\<close>

definition sekante_config :: vite_config where
  "sekante_config =
     \<lparr>plugins = [''svelte''], base = ''./'',
      build = \<lparr>outDir = ''dist'', manualChunks = None\<rparr>\<rparr>"

end
