(* ===== verification/Spec2Isabelle.thy ===== *)
theory Spec2Isabelle
  imports Style Build
begin

text \<open>
  \<^bold>\<open>A verification of the secant applet \<open>App.svelte\<close>.\<close>

  \<^bold>\<open>The program.\<close> The applet (\<open>src/unnamed/part_000\<close>, the component
  \<open>App.svelte\<close>; \<open>src/unnamed/part_001\<close>, its entry point \<open>main.js\<close>)
  draws the parabola \<open>f(x) = x\<^sup>2 - 2x + 3\<close>, the secant through
  \<open>(x0, f(x0))\<close> and \<open>(x0 + \<Delta>x, f(x0 + \<Delta>x))\<close> and the tangent at
  \<open>x0 = 2\<close>, and lets the user move \<open>\<Delta>x\<close> with a slider or five preset
  buttons. The script holds the state \<open>(deltaX, x0)\<close>; its reactive
  declarations (\<open>$:\<close>) derive the slopes, the display strings, the error
  colour, three polyline strings and two marker points; the template turns
  all of it into an SVG chart, the controls and an info bar.

  \<^bold>\<open>The theories.\<close>
  \<^item> \<open>Prelude\<close>: the number type (\<open>js_number = real\<close>), the printer
    parameter \<open>num_fmt\<close>, \<open>join\<close>/\<open>split_on\<close> and shared list lemmas.
  \<^item> \<open>Js\<close>: the JavaScript primitives the script calls, after ECMAScript:
    \<open>Math.round\<close> (\<open>js_round\<close>), \<open>Number.prototype.toFixed\<close> (\<open>toFixed\<close>,
    \<open>fixed_digits\<close>), unary \<open>+\<close> on a decimal string (\<open>js_to_number\<close>),
    integer printing (\<open>int_str\<close>). Lemmas: a \<open>toFixed\<close> text read back,
    integer printing is injective, four decimals of a value on the grid of
    hundredths end in \<open>00\<close>.
  \<^item> \<open>MathModel\<close>: \<open>f\<close>, \<open>df\<close>, the difference quotient \<open>sec_slope\<close>
    and the lines \<open>line_through\<close> (script lines 27--30, 81, 97--100);
    the closed form of the quotient and the derivative.
  \<^item> \<open>Viewport\<close>: the viewport constants, \<open>toSvgX\<close>/\<open>toSvgY\<close>,
    \<open>makeLine\<close> and the 300 samples \<open>xs\<close> (lines 41--72); orientation,
    no clamping, the samples, the points string read back.
  \<^item> \<open>Ticks\<close>: the loop of \<open>ticks\<close> (lines 108--112) as a
    \<^theory_text>\<open>partial_function (option)\<close>; its closed form for a positive step,
    the two axes, and its error path: with \<open>step \<le> 0\<close> it never returns.
  \<^item> \<open>Color\<close>: \<open>errorRatio\<close> and \<open>interpolateColor\<close> (lines 125--134):
    channel bounds and monotonicity.
  \<^item> \<open>Reactive\<close>: the component state as the record \<open>comp\<close>, the reactive
    statements as data (\<open>reactive_stmts\<close>, lines 81--104, and
    \<open>color_stmts\<close>, lines 125--126), the Svelte 3 flush (\<open>run_stmt\<close>,
    \<open>svelte_update\<close>: a statement runs when a variable it reads is
    dirty), the assignments \<open>set_deltaX\<close>/\<open>set_x0\<close> and \<open>mount\<close>
    (\<open>new App\<close> in \<open>main.js\<close>). The reference \<open>spec_state\<close> computes the
    whole state from \<open>(x0, deltaX)\<close>; the update refines it, mounting
    reaches it, and the dirty-driven flush equals running every statement
    (the explicit pipeline the spec describes).
  \<^item> \<open>Controls\<close>: the slider (\<open>range_value\<close>, the HTML value
    sanitisation of a range input with \<open>DX_MIN\<close>, \<open>DX_MAX\<close>,
    \<open>DX_STEP\<close>), the preset buttons (\<open>presets\<close>, \<open>preset_active\<close>), the
    event handler \<open>handle\<close>, the empty \<open>onMount\<close> callback (\<open>on_mount\<close>,
    lines 144--147) and the widget's lifetime as the inductive relation
    \<open>reachable\<close>: its invariant by rule induction, and the reachable states
    as exactly the 200 states of the slider's grid.
  \<^item> \<open>Render\<close>: the template (lines 162--347) as a DOM tree of elements
    with attributes and handlers; \<open>render\<close> yields the page once both tick
    loops have returned; \<open>new_app\<close> (\<open>main.js\<close>) composes mounting,
    rendering and the hook. Lemmas: the \<open>\<Delta>x\<close> rectangle stays in the plot,
    the readouts' text.
  \<^item> \<open>Style\<close>: every rule of the scoped stylesheet (lines 361--587) as
    data, and the part of the CSS cascade that decides its effect on the
    page: selector matching with the descendant combinator, specificity,
    inline style, SVG presentation attributes, inheritance and \<open>var()\<close>
    (\<open>specified\<close>). Lemmas: the active preset's computed background and
    the colours of the two readouts, in every reachable state.
  \<^item> \<open>Build\<close>: \<open>vite.config.js\<close> (\<open>src/src/chapter04/sekante\<close>, lines
    18--35) as a record.
  \<^item> This theory: the properties that span the components, about every
    reachable state: the slopes, the error colour, the marker \<open>P\<^sub>2\<close>, and
    the secant and tangent as drawn.

  \<^bold>\<open>How the parts interact.\<close> An event (\<open>ui_event\<close>) is a slider move
  or a preset click; \<open>handle\<close> turns it into \<open>set_deltaX\<close>, which runs
  the flush of \<open>Reactive\<close>; the result is rendered by \<open>Render\<close> and painted
  through the cascade of \<open>Style\<close>. The reachable states are the states a
  user can bring the widget into: the mounted state and every state after
  a sequence of slider moves and clicks.

  \<^bold>\<open>Choices of the model.\<close> Numbers are exact reals. Every claim about
  the reachable states concerns values on the slider's grid of hundredths,
  and the texts and colours it states are the same on IEEE doubles: the
  rounding error of \<open>slope_sek\<close> (about \<open>10^-13\<close>) is far below what
  \<open>toFixed(4)\<close> and \<open>Math.round\<close> round away, and the marker and rectangle
  bounds hold with a wide margin. What only holds on exact reals is said
  where it matters: the closed form of the tick loop (\<open>Ticks\<close>); the
  equalities of \<open>reachable_slopes\<close> and \<open>sec_slope_closed\<close> hold up to the
  last bits on doubles. \<open>Number::toString\<close> of a non-integral number is a
  parameter \<open>ns\<close> of every printing operation; theorems hold for every
  printer, witnesses use the integer printer \<open>\<lambda>r. int_str (js_round r)\<close>.
  \<open>toFixed\<close> of \<open>|x| \<ge> 10^21\<close> defers to \<open>ns\<close>, as ECMAScript does. The
  tick loop needs no fuel: non-termination is the value \<open>None\<close> of the
  \<^theory_text>\<open>partial_function\<close>. The Svelte runtime (dirty set, flush) and the
  HTML range sanitisation are modelled from their documented behaviour,
  since they are not part of the sources.

  The evaluation of the cascade on the page is by \<open>code_simp\<close>, which
  rewrites with the code equations of the definitions and trusts no
  generated code. The cascade is the page at rest: no element is hovered,
  the stylesheet has no \<open>!important\<close> and no id selector, and Svelte's
  scoping class, present on every element of the component and on every
  selector but \<open>:root\<close>, changes no match.

  \<^bold>\<open>Not modelled.\<close> The comment lines of the template and the
  stylesheet; the DOM lookup of the mount target in \<open>main.js\<close>; the
  bundling itself (the Svelte compiler and Rollup, configured by
  \<open>vite.config.js\<close>); browser layout and painting: the page is modelled up
  to the attributes Svelte sets and the computed values of the properties
  the stylesheet declares, not the boxes and pixels they produce; IEEE
  double rounding, signed zeros, \<open>NaN\<close> and the infinities: the only
  division of the script, by \<open>deltaX\<close>, never meets zero in a reachable
  state, and a tick loop whose step is absorbed by rounding (possible on
  doubles for huge bounds, never for the widget's calls) is not shown by
  the exact model.
\<close>

text \<open>
  Claim C5. In every reachable state the secant's step is non-zero, so the
  division of \<open>slope_sek\<close> is defined; the tangent slope at \<open>x0 = 2\<close> is
  \<open>2\<close>, the secant slope \<open>2 + deltaX\<close>, the displayed error is exactly
  \<open>deltaX\<close> and the error ratio \<open>deltaX / 3\<close> stays below the cap \<open>1\<close>.
\<close>

theorem reachable_slopes:
  assumes "reachable ns c"
  shows "deltaX c \<noteq> 0 \<and> slope_tan c = 2 \<and> slope_sek c = 2 + deltaX c
         \<and> \<bar>slope_sek c - slope_tan c\<bar> = deltaX c
         \<and> errorRatio c = deltaX c / 3 \<and> errorRatio c \<le> 2 / 3 \<and> errorRatio c < 1"
  using reachable_fields [OF assms] by auto

theorem reachable_slopes_witness:
  "reachable (\<lambda>r. int_str (js_round r)) (mount (\<lambda>r. int_str (js_round r)) (spec_state (\<lambda>r. int_str (js_round r)) 0 1))
   \<and> slope_sek (mount (\<lambda>r. int_str (js_round r)) (spec_state (\<lambda>r. int_str (js_round r)) 0 1)) = 7 / 2
   \<and> errorRatio (mount (\<lambda>r. int_str (js_round r)) (spec_state (\<lambda>r. int_str (js_round r)) 0 1)) = 1 / 2"
proof -
  have r: "reachable (\<lambda>r. int_str (js_round r)) (mount (\<lambda>r. int_str (js_round r)) (spec_state (\<lambda>r. int_str (js_round r)) 0 1))"
    by (rule reachable_mount)
  show ?thesis using r reachable_slopes [OF r] by (simp add: mount_eq)
qed

text \<open>
  Claim C7. The error colour never reaches the red of a large error: in
  every reachable state the ratio is at most \<open>2/3\<close>, the red channel at
  most \<open>141\<close>, and the colour string differs from \<open>interpolateColor(1)\<close>
  \<open>= rgb(192,57,43)\<close>. The cap \<open>Math.min(1, \<dots>)\<close> never applies.
\<close>

theorem error_color_not_red:
  assumes "reachable ns c"
  shows "errorRatio c \<le> 2 / 3 \<and> fst (color_channels (errorRatio c)) \<le> 141
         \<and> errorColor c \<noteq> interpolateColor 1"
proof -
  have f: "0 < deltaX c" "deltaX c \<le> 2" "errorRatio c = deltaX c / 3"
    "errorColor c = interpolateColor (deltaX c / 3)"
    using reachable_fields [OF assms] by simp_all
  show ?thesis unfolding f(3,4) using f(1,2) interpolateColor_below_red [of "deltaX c / 3"] by simp
qed

theorem error_color_not_red_witness:
  "reachable (\<lambda>r. int_str (js_round r))
     (handle (\<lambda>r. int_str (js_round r)) (mount (\<lambda>r. int_str (js_round r)) (spec_state (\<lambda>r. int_str (js_round r)) 0 1)) (Click 2))
   \<and> errorColor (handle (\<lambda>r. int_str (js_round r)) (mount (\<lambda>r. int_str (js_round r)) (spec_state (\<lambda>r. int_str (js_round r)) 0 1)) (Click 2))
     \<noteq> interpolateColor 1"
proof -
  have r: "reachable (\<lambda>r. int_str (js_round r))
     (handle (\<lambda>r. int_str (js_round r)) (mount (\<lambda>r. int_str (js_round r)) (spec_state (\<lambda>r. int_str (js_round r)) 0 1)) (Click 2))"
    by (rule reachable.event [OF reachable_mount]) (simp add: presets_def)
  show ?thesis using r error_color_not_red [OF r] by simp
qed

text \<open>
  Claim C8. The endpoint \<open>P2 = (x0 + deltaX, f(x0 + deltaX))\<close> of the
  secant is drawn above the top edge of the SVG viewBox (\<open>cy < 0\<close>, the
  circle and its label are cut off) exactly when \<open>deltaX \<ge> 1.75\<close>: for
  the slider's upper range and the preset \<open>2.0\<close>.
\<close>

theorem marker_offcanvas:
  assumes "reachable ns c"
  shows "pt_y (px1 c) < 0 \<longleftrightarrow> 7 / 4 \<le> deltaX c"
proof -
  have f: "0 < deltaX c" "100 * deltaX c \<in> \<int>" "px1 c = marker (2 + deltaX c)"
    using reachable_fields [OF assms] by simp_all
  obtain r where r: "100 * deltaX c = of_int r" using f(2) by (auto elim!: Ints_cases)
  define q where "q = (of_int r :: real)"
  have dx: "deltaX c = q / 100" using r by (simp add: q_def)
  have q0: "0 \<le> q" using f(1) dx by simp
  have e: "3000 * pt_y (px1 c) = 720000 - 11 * (q * q) - 2200 * q"
    using f(3) dx by (simp add: marker_def toSvgY_affine f_fn_def field_simps)
  consider "175 \<le> r" | "r \<le> 174" by linarith
  then show ?thesis
  proof cases
    case 1
    then have q: "175 \<le> q" by (simp add: q_def)
    then have "175 * 175 \<le> q * q" by (intro mult_mono) simp_all
    then show ?thesis using q e dx by simp
  next
    case 2
    then have q: "q \<le> 174" by (simp add: q_def)
    then have "q * q \<le> 174 * 174" using q0 by (intro mult_mono) simp_all
    then show ?thesis using q e dx by simp
  qed
qed

theorem marker_offcanvas_witness:
  "reachable (\<lambda>r. int_str (js_round r))
     (handle (\<lambda>r. int_str (js_round r)) (mount (\<lambda>r. int_str (js_round r)) (spec_state (\<lambda>r. int_str (js_round r)) 0 1)) (Click 2))
   \<and> pt_y (px1 (handle (\<lambda>r. int_str (js_round r)) (mount (\<lambda>r. int_str (js_round r)) (spec_state (\<lambda>r. int_str (js_round r)) 0 1)) (Click 2))) < 0"
proof -
  have r: "reachable (\<lambda>r. int_str (js_round r))
     (handle (\<lambda>r. int_str (js_round r)) (mount (\<lambda>r. int_str (js_round r)) (spec_state (\<lambda>r. int_str (js_round r)) 0 1)) (Click 2))"
    by (rule reachable.event [OF reachable_mount]) (simp add: presets_def)
  show ?thesis using r marker_offcanvas [OF r]
    by (simp add: set_deltaX_eq mount_eq consistent_spec_state)
qed


text \<open>
  Claim C13. The lines and the markers of the chart fit together: in every
  reachable state the secant is drawn (\<open>sekantePoints\<close>, line 97) along
  \<open>\<ell>(x) = f(x0) + slope_sek \<cdot> (x - x0)\<close>, and the two markers \<open>px0\<close>, \<open>px1\<close>
  (lines 103--104) are the drawing coordinates of \<open>\<ell>\<close> at \<open>x0\<close> and
  \<open>x0 + deltaX\<close>: the secant passes through both of its endpoints. The
  tangent (\<open>tangentePoints\<close>, line 100) is drawn along
  \<open>\<tau>(x) = f(x0) + slope_tan \<cdot> (x - x0)\<close>, which lies below the parabola
  and meets it only at \<open>x0\<close>.
\<close>

theorem lines_through_markers:
  assumes "reachable ns c"
  shows "sekantePoints c = makeLine ns xs (line_through (x0 c) (slope_sek c))
         \<and> tangentePoints c = makeLine ns xs (line_through (x0 c) (slope_tan c))
         \<and> px0 c = \<lparr>pt_x = toSvgX (x0 c), pt_y = toSvgY (line_through (x0 c) (slope_sek c) (x0 c))\<rparr>
         \<and> px1 c = \<lparr>pt_x = toSvgX (x0 c + deltaX c),
                    pt_y = toSvgY (line_through (x0 c) (slope_sek c) (x0 c + deltaX c))\<rparr>
         \<and> (\<forall>x. line_through (x0 c) (slope_tan c) x \<le> f_fn x)
         \<and> (\<forall>x. line_through (x0 c) (slope_tan c) x = f_fn x \<longleftrightarrow> x = x0 c)"
proof -
  have e: "x0 c = 2" "slope_sek c = 2 + deltaX c" "slope_tan c = 2" "px0 c = marker 2"
    "px1 c = marker (2 + deltaX c)" "sekantePoints c = makeLine ns xs (line_through 2 (2 + deltaX c))"
    "tangentePoints c = makeLine ns xs (line_through 2 2)"
    using reachable_fields [OF assms] by simp_all
  have t: "f_fn x - line_through 2 2 x = (x - 2)\<^sup>2" for x
    by (simp add: f_fn_def line_through_def power2_eq_square algebra_simps)
  have p1: "marker 2 = \<lparr>pt_x = toSvgX 2, pt_y = toSvgY (line_through 2 (2 + deltaX c) 2)\<rparr>"
    by (simp add: marker_def line_through_def)
  have p2: "marker (2 + deltaX c)
      = \<lparr>pt_x = toSvgX (2 + deltaX c), pt_y = toSvgY (line_through 2 (2 + deltaX c) (2 + deltaX c))\<rparr>"
    by (simp add: marker_def line_through_def f_fn_def algebra_simps)
  have below: "\<forall>x. line_through 2 2 x \<le> f_fn x"
  proof
    fix x
    have "0 \<le> (x - 2 :: real)\<^sup>2" by simp
    then show "line_through 2 2 x \<le> f_fn x" using t [of x] by linarith
  qed
  have touch: "\<forall>x. line_through 2 2 x = f_fn x \<longleftrightarrow> x = 2"
  proof
    fix x
    have "line_through 2 2 x = f_fn x \<longleftrightarrow> (x - 2)\<^sup>2 = 0" using t [of x] by linarith
    then show "line_through 2 2 x = f_fn x \<longleftrightarrow> x = 2" by simp
  qed
  show ?thesis unfolding e using p1 p2 below touch by simp
qed

theorem lines_through_markers_witness:
  "reachable (\<lambda>r. int_str (js_round r)) (mount (\<lambda>r. int_str (js_round r)) (spec_state (\<lambda>r. int_str (js_round r)) 0 1))
   \<and> line_through (x0 (mount (\<lambda>r. int_str (js_round r)) (spec_state (\<lambda>r. int_str (js_round r)) 0 1)))
       (slope_tan (mount (\<lambda>r. int_str (js_round r)) (spec_state (\<lambda>r. int_str (js_round r)) 0 1))) 3 \<le> f_fn 3"
proof -
  have r: "reachable (\<lambda>r. int_str (js_round r)) (mount (\<lambda>r. int_str (js_round r)) (spec_state (\<lambda>r. int_str (js_round r)) 0 1))"
    by (rule reachable_mount)
  show ?thesis using r lines_through_markers [OF r] by blast
qed

end
